theory Spec2Isabelle
  imports Complex_Main "HOL-Library.Word"
begin

section \<open>Annotated allocation helper (annotated_class_util.hpp)\<close>

text \<open>
  The header wraps the SYCL call \<open>aligned_alloc_annotated\<close>.  The SYCL runtime is not part
  of the repository, so the three library entities the wrapper uses are parameters of the
  model: the trait \<open>detail::HasAlign\<close>, the trait \<open>detail::GetAlignFromPropList\<close> and
  the allocator itself, which may return the null pointer.
\<close>

type_synonym ptr = "64 word"
type_synonym size_t = "64 word"

definition nullptr :: ptr where
  "nullptr = 0"

datatype usm_alloc = host | device | shared | unknown

record ('p, 'q) sycl_runtime =
  HasAlign :: "'p list \<Rightarrow> bool"
  GetAlignFromPropList :: "'p list \<Rightarrow> size_t"
  aligned_alloc_annotated :: "'p list \<Rightarrow> size_t \<Rightarrow> size_t \<Rightarrow> 'q \<Rightarrow> usm_alloc \<Rightarrow> ptr"

text \<open>
  \<open>remove_align_from\<close>: the empty property list stays empty; otherwise, when the first
  property is an alignment the rest of the list is the result (without recursion), else the
  first property is merged with the result for the rest.
\<close>

fun remove_align_from :: "('p, 'q) sycl_runtime \<Rightarrow> 'p list \<Rightarrow> 'p list" where
  "remove_align_from rt [] = []"
| "remove_align_from rt (Prop # Props) =
     (if HasAlign rt [Prop] then Props else Prop # remove_align_from rt Props)"

record 'p split_annotated_type =
  all_properties :: "'p list"
  alignment :: size_t
  properties :: "'p list"

definition split_annotated :: "('p, 'q) sycl_runtime \<Rightarrow> 'p list \<Rightarrow> 'p split_annotated_type" where
  "split_annotated rt T =
     \<lparr> all_properties = T,
       alignment = GetAlignFromPropList rt T,
       properties = remove_align_from rt T \<rparr>"

text \<open>
  The result of \<open>alloc_annotated\<close>: either the annotated object wrapping the pointer, or the
  program ends in \<open>std::terminate\<close> after the message was written to \<open>std::cerr\<close>.
\<close>

datatype annotated = Annotated (get: ptr)

datatype fatal = Terminate string

definition alloc_annotated ::
  "('p, 'q) sycl_runtime \<Rightarrow> 'p list \<Rightarrow> size_t \<Rightarrow> 'q \<Rightarrow> usm_alloc \<Rightarrow> fatal + annotated" where
  "alloc_annotated rt T count syclQueue usmKind =
     (let ann_ptr = Annotated (aligned_alloc_annotated rt (properties (split_annotated rt T))
                      (alignment (split_annotated rt T)) count syclQueue usmKind)
      in if get ann_ptr = nullptr
         then Inl (Terminate ''Memory allocation returns null'')
         else Inr (Annotated (get ann_ptr)))"

text \<open>The default argument \<open>usmKind = sycl::usm::alloc::host\<close>.\<close>

definition alloc_annotated_default ::
  "('p, 'q) sycl_runtime \<Rightarrow> 'p list \<Rightarrow> size_t \<Rightarrow> 'q \<Rightarrow> fatal + annotated" where
  "alloc_annotated_default rt T count syclQueue = alloc_annotated rt T count syclQueue host"

text \<open>A runtime used to run the model: properties are numbers, 0 is the alignment property,
  and the allocator hands out address 4096 unless asked for more than 1024 elements.\<close>

definition demo_runtime :: "(nat, unit) sycl_runtime" where
  "demo_runtime =
     \<lparr> HasAlign = (\<lambda>ps. 0 \<in> set ps),
       GetAlignFromPropList = (\<lambda>ps. if 0 \<in> set ps then 32 else 0),
       aligned_alloc_annotated = (\<lambda>ps al n q k. if n \<le> 1024 then 4096 else 0) \<rparr>"

section \<open>Binary floating point with parametric widths\<close>

text \<open>
  The tutorials compute with the native \<open>double\<close> and \<open>float\<close> types and with the vendor
  type \<open>ihc::ap_float<E, M, Rnd>\<close>.  The header \<open>ap_float.hpp\<close> is not among the sources, so
  the encoding, the rounding policy, the conversions and the arithmetic operations of that
  type are modelled from the specification (sections 3, 4.1 to 4.4 and 6).  At the widths
  \<open>E = 11\<close>, \<open>M = 52\<close> the encoding is the IEEE-754 binary64 format of the native
  \<open>double\<close>, at \<open>E = 8\<close>, \<open>M = 23\<close> the binary32 format of the native \<open>float\<close>.

  All numbers are \<open>int\<close>; a field of a value is well formed when it is in the range that its
  bit width allows.
\<close>

text \<open>Modelled from the spec: the enumerations RoundingMode, AccuracyTier and SubnormalMode
  (section 3), the template parameters \<open>FP_Round\<close>, \<open>FP_Accuracy\<close> and \<open>FP_Subnormal\<close> of
  the missing header.\<close>

datatype RoundingMode = RoundNearestEven | RoundTowardZero

datatype AccuracyTier = High | Low

datatype SubnormalMode = On | Off

record BitLayout =
  ebits :: int
  mbits :: int

text \<open>Modelled from the spec: the BitLayout invariant \<open>E, M > 0\<close> and \<open>E + M + 1 \<le> 64\<close>
  (section 3); the class template of \<open>ap_float.hpp\<close> is missing.\<close>

definition valid_layout :: "BitLayout \<Rightarrow> bool" where
  "valid_layout L = (0 < ebits L \<and> 0 < mbits L \<and> ebits L + mbits L + 1 \<le> 64)"

text \<open>Modelled from the spec: the derived constants of a layout (section 4.1): the bias
  \<open>2^(E-1) - 1\<close>, the largest exponent field \<open>2^E - 1\<close>, and the binary exponents of the
  smallest normal magnitude \<open>2^(1-bias)\<close> and of the smallest subnormal magnitude
  \<open>2^(1-bias-M)\<close>; they are missing with \<open>ap_float.hpp\<close>.\<close>

definition bias :: "BitLayout \<Rightarrow> int" where
  "bias L = 2 ^ nat (ebits L - 1) - 1"

definition max_exponent_field :: "BitLayout \<Rightarrow> int" where
  "max_exponent_field L = 2 ^ nat (ebits L) - 1"

definition min_normal_exponent :: "BitLayout \<Rightarrow> int" where
  "min_normal_exponent L = 1 - bias L"

definition min_subnormal_exponent :: "BitLayout \<Rightarrow> int" where
  "min_subnormal_exponent L = 1 - bias L - mbits L"

definition binary64 :: BitLayout where
  "binary64 = \<lparr> ebits = 11, mbits = 52 \<rparr>"

definition binary32 :: BitLayout where
  "binary32 = \<lparr> ebits = 8, mbits = 23 \<rparr>"

text \<open>Modelled from the spec: the value type ConfigurableFloat (section 3) holds the sign
  bit, the biased exponent, the mantissa, and the layout and rounding mode it was
  constructed under; the class \<open>ap_float\<close> itself is missing.  Native \<open>double\<close> and
  \<open>float\<close> values are the values of layout \<open>binary64\<close> and \<open>binary32\<close>.\<close>

record ConfigurableFloat =
  sign_bit :: bool
  biased_exponent :: int
  mantissa :: int
  layout :: BitLayout
  rmode :: RoundingMode

definition make_float :: "BitLayout \<Rightarrow> RoundingMode \<Rightarrow> bool \<Rightarrow> int \<Rightarrow> int \<Rightarrow> ConfigurableFloat" where
  "make_float L mode s e m =
     \<lparr> sign_bit = s, biased_exponent = e, mantissa = m, layout = L, rmode = mode \<rparr>"

definition well_formed :: "ConfigurableFloat \<Rightarrow> bool" where
  "well_formed x =
     (valid_layout (layout x) \<and>
      0 \<le> biased_exponent x \<and> biased_exponent x \<le> max_exponent_field (layout x) \<and>
      0 \<le> mantissa x \<and> mantissa x < 2 ^ nat (mbits (layout x)))"

text \<open>Modelled from the spec: the classification predicates (sections 3 and 4.1): exponent
  all ones with mantissa zero is an infinity, with mantissa nonzero a NaN; exponent zero
  with mantissa nonzero is a subnormal, with mantissa zero a signed zero.\<close>

definition is_zero :: "ConfigurableFloat \<Rightarrow> bool" where
  "is_zero x = (biased_exponent x = 0 \<and> mantissa x = 0)"

definition is_infinite :: "ConfigurableFloat \<Rightarrow> bool" where
  "is_infinite x = (biased_exponent x = max_exponent_field (layout x) \<and> mantissa x = 0)"

definition is_nan :: "ConfigurableFloat \<Rightarrow> bool" where
  "is_nan x = (biased_exponent x = max_exponent_field (layout x) \<and> mantissa x \<noteq> 0)"

definition is_subnormal :: "ConfigurableFloat \<Rightarrow> bool" where
  "is_subnormal x = (biased_exponent x = 0 \<and> mantissa x \<noteq> 0)"

definition sign_of :: "ConfigurableFloat \<Rightarrow> bool" where
  "sign_of x = sign_bit x"

definition is_finite :: "ConfigurableFloat \<Rightarrow> bool" where
  "is_finite x = (biased_exponent x \<noteq> max_exponent_field (layout x))"

text \<open>
  The infinite-precision intermediate values: NaN, a signed infinity, or the number
  \<open>(-1)^s * m * 2^e\<close> written \<open>Finite s m e\<close> with \<open>m \<ge> 0\<close> (\<open>m = 0\<close> is a signed zero).
\<close>

datatype exact = NaN_value | Infinity bool | Finite bool int int

text \<open>Modelled from the spec: the value a bit pattern encodes (section 3): a normal number
  has the implicit leading bit, a subnormal is \<open>mantissa * 2^(1-bias-M)\<close> without it.\<close>

definition value_of :: "ConfigurableFloat \<Rightarrow> exact" where
  "value_of x =
     (let L = layout x in
      if biased_exponent x = max_exponent_field L
      then (if mantissa x = 0 then Infinity (sign_bit x) else NaN_value)
      else if biased_exponent x = 0
      then Finite (sign_bit x) (mantissa x) (min_subnormal_exponent L)
      else Finite (sign_bit x) (2 ^ nat (mbits L) + mantissa x)
             (biased_exponent x - bias L - mbits L))"

text \<open>The number of bits of a positive integer.\<close>

function bitlen :: "int \<Rightarrow> int" where
  "bitlen m = (if m \<le> 0 then 0 else 1 + bitlen (m div 2))"
  by pat_completeness auto
termination
  by (relation "measure nat") auto

declare bitlen.simps [simp del]

text \<open>Modelled from the spec: the two rounding modes (section 4.2), missing with the
  header.  \<open>shift_round mode m k\<close> drops the \<open>k\<close> low bits of \<open>m\<close>: RoundTowardZero
  truncates and never increments; RoundNearestEven goes to the nearest value and, on an
  exact tie, to the one with an even low bit.  For \<open>k \<le> 0\<close> nothing is lost.\<close>

definition shift_round :: "RoundingMode \<Rightarrow> int \<Rightarrow> int \<Rightarrow> int" where
  "shift_round mode m k =
     (if k \<le> 0 then m * 2 ^ nat (- k)
      else let t = m div 2 ^ nat k; r = m mod 2 ^ nat k; half = 2 ^ nat (k - 1)
           in case mode of
                RoundTowardZero \<Rightarrow> t
              | RoundNearestEven \<Rightarrow> if half < r \<or> (r = half \<and> odd t) then t + 1 else t)"

text \<open>Modelled from the spec: the canonical NaN (\<open>APDoubleType::nan()\<close> in the kernels): the
  payload is irrelevant, the model takes the quiet bit.\<close>

definition nan :: "BitLayout \<Rightarrow> RoundingMode \<Rightarrow> ConfigurableFloat" where
  "nan L mode = make_float L mode False (max_exponent_field L) (2 ^ nat (mbits L - 1))"

text \<open>Modelled from the spec: RoundingPolicy (section 4.2),
  \<open>round(infinite_precision_value, target_layout, mode)\<close>, missing with \<open>ap_float.hpp\<close>.
  NaN gives the canonical NaN and an infinity is kept.  For a finite nonzero value the
  mantissa is cut at the last bit the layout keeps (the subnormal encoding is used below
  the smallest normal); exponent field and mantissa are put together as one number, so a
  carry out of the mantissa moves into the exponent.  Overflow rounds to infinity under
  RoundNearestEven; RoundTowardZero never increments and stops at the largest finite
  magnitude.\<close>

definition round_fp :: "exact \<Rightarrow> BitLayout \<Rightarrow> RoundingMode \<Rightarrow> ConfigurableFloat" where
  "round_fp v L mode =
     (case v of
        NaN_value \<Rightarrow> nan L mode
      | Infinity s \<Rightarrow> make_float L mode s (max_exponent_field L) 0
      | Finite s m e \<Rightarrow>
          if m = 0 then make_float L mode s 0 0
          else
            let lo = max (e + bitlen m - 1) (min_normal_exponent L);
                sig = shift_round mode m (lo - mbits L - e);
                c = (lo + bias L - 1) * 2 ^ nat (mbits L) + sig
            in if max_exponent_field L \<le> c div 2 ^ nat (mbits L)
               then (case mode of
                       RoundNearestEven \<Rightarrow> make_float L mode s (max_exponent_field L) 0
                     | RoundTowardZero \<Rightarrow>
                         make_float L mode s (max_exponent_field L - 1) (2 ^ nat (mbits L) - 1))
               else make_float L mode s (c div 2 ^ nat (mbits L)) (c mod 2 ^ nat (mbits L)))"

subsection \<open>Infinite-precision arithmetic\<close>

text \<open>Modelled from the spec: the infinite-precision result of an operation and its rules
  for NaN, infinities and zeros (section 4.4, steps 2 and 5); the operations of the missing
  header compute it in hardware.  The same results, rounded to \<open>binary64\<close>, are the
  IEEE-754 operations of the native \<open>double\<close>.\<close>

definition with_sign :: "bool \<Rightarrow> int \<Rightarrow> int" where
  "with_sign s m = (if s then - m else m)"

fun exact_neg :: "exact \<Rightarrow> exact" where
  "exact_neg NaN_value = NaN_value"
| "exact_neg (Infinity s) = Infinity (\<not> s)"
| "exact_neg (Finite s m e) = Finite (\<not> s) m e"

text \<open>Sums: \<open>\<infinity> - \<infinity>\<close> is NaN; an exact zero sum is \<open>-0\<close> only when both operands are
  negative zeros.\<close>

fun exact_add :: "exact \<Rightarrow> exact \<Rightarrow> exact" where
  "exact_add NaN_value y = NaN_value"
| "exact_add x NaN_value = NaN_value"
| "exact_add (Infinity s1) (Infinity s2) = (if s1 = s2 then Infinity s1 else NaN_value)"
| "exact_add (Infinity s1) (Finite s2 m2 e2) = Infinity s1"
| "exact_add (Finite s1 m1 e1) (Infinity s2) = Infinity s2"
| "exact_add (Finite s1 m1 e1) (Finite s2 m2 e2) =
     (let e = min e1 e2;
          z = with_sign s1 (m1 * 2 ^ nat (e1 - e)) + with_sign s2 (m2 * 2 ^ nat (e2 - e))
      in if z = 0 then Finite (s1 \<and> s2) 0 e else Finite (z < 0) \<bar>z\<bar> e)"

definition exact_sub :: "exact \<Rightarrow> exact \<Rightarrow> exact" where
  "exact_sub x y = exact_add x (exact_neg y)"

text \<open>Products: \<open>0 \<times> \<infinity>\<close> is NaN.\<close>

fun exact_mul :: "exact \<Rightarrow> exact \<Rightarrow> exact" where
  "exact_mul NaN_value y = NaN_value"
| "exact_mul x NaN_value = NaN_value"
| "exact_mul (Infinity s1) (Infinity s2) = Infinity (s1 \<noteq> s2)"
| "exact_mul (Infinity s1) (Finite s2 m2 e2) =
     (if m2 = 0 then NaN_value else Infinity (s1 \<noteq> s2))"
| "exact_mul (Finite s1 m1 e1) (Infinity s2) =
     (if m1 = 0 then NaN_value else Infinity (s1 \<noteq> s2))"
| "exact_mul (Finite s1 m1 e1) (Finite s2 m2 e2) = Finite (s1 \<noteq> s2) (m1 * m2) (e1 + e2)"

text \<open>
  Quotients: \<open>0/0\<close> and \<open>\<infinity>/\<infinity>\<close> are NaN, a nonzero number over zero is an infinity.  A
  quotient of two finite numbers need not be a binary fraction: it is kept to more than
  \<open>p\<close> bits and one last bit that records whether anything nonzero was cut off, which rounds
  like the quotient itself at every precision below \<open>p\<close>.
\<close>

fun exact_div :: "int \<Rightarrow> exact \<Rightarrow> exact \<Rightarrow> exact" where
  "exact_div p NaN_value y = NaN_value"
| "exact_div p x NaN_value = NaN_value"
| "exact_div p (Infinity s1) (Infinity s2) = NaN_value"
| "exact_div p (Infinity s1) (Finite s2 m2 e2) = Infinity (s1 \<noteq> s2)"
| "exact_div p (Finite s1 m1 e1) (Infinity s2) = Finite (s1 \<noteq> s2) 0 0"
| "exact_div p (Finite s1 m1 e1) (Finite s2 m2 e2) =
     (if m2 = 0 then (if m1 = 0 then NaN_value else Infinity (s1 \<noteq> s2))
      else
        let k = p + bitlen m2;
            n = m1 * 2 ^ nat k;
            q = n div m2;
            r = n mod m2
        in Finite (s1 \<noteq> s2) (2 * q + (if r = 0 then 0 else 1)) (e1 - e2 - k - 1))"

text \<open>The integer square root, two bits at a time.\<close>

function isqrt :: "int \<Rightarrow> int" where
  "isqrt n =
     (if n \<le> 0 then 0
      else let r = 2 * isqrt (n div 4) in if (r + 1) * (r + 1) \<le> n then r + 1 else r)"
  by pat_completeness auto
termination
  by (relation "measure nat") auto

declare isqrt.simps [simp del]

text \<open>Square roots (section 4.4): NaN for a negative nonzero input, \<open>\<surd>(-0) = -0\<close>,
  \<open>\<surd>(+\<infinity>) = +\<infinity>\<close>; a finite root is kept to at least \<open>p\<close> bits and the bit that
  records an inexact root.\<close>

fun exact_sqrt :: "int \<Rightarrow> exact \<Rightarrow> exact" where
  "exact_sqrt p NaN_value = NaN_value"
| "exact_sqrt p (Infinity s) = (if s then NaN_value else Infinity False)"
| "exact_sqrt p (Finite s m e) =
     (if m = 0 then Finite s 0 0
      else if s then NaN_value
      else
        let k0 = max 0 (2 * p - bitlen m);
            k = (if even (e - k0) then k0 else k0 + 1);
            n = m * 2 ^ nat k;
            r = isqrt n
        in Finite False (2 * r + (if r * r = n then 0 else 1)) ((e - k) div 2 - 1))"

text \<open>Ordering: NaN is unordered, so every comparison with it is false.\<close>

fun exact_less :: "exact \<Rightarrow> exact \<Rightarrow> bool" where
  "exact_less NaN_value y = False"
| "exact_less x NaN_value = False"
| "exact_less (Infinity s1) (Infinity s2) = (s1 \<and> \<not> s2)"
| "exact_less (Infinity s1) (Finite s2 m2 e2) = s1"
| "exact_less (Finite s1 m1 e1) (Infinity s2) = (\<not> s2)"
| "exact_less (Finite s1 m1 e1) (Finite s2 m2 e2) =
     (let e = min e1 e2
      in with_sign s1 (m1 * 2 ^ nat (e1 - e)) < with_sign s2 (m2 * 2 ^ nat (e2 - e)))"

subsection \<open>Conversions\<close>

text \<open>Modelled from the spec: \<open>from_native\<close>, \<open>convert\<close> and \<open>to_double\<close> (sections 4.3 and
  6), the converting constructors and \<open>convert_to\<close> of the missing \<open>ap_float.hpp\<close>.  Each
  goes through the rounding policy with the mode that is passed; the cast to the native
  \<open>double\<close> rounds to \<open>binary64\<close> with the native mode.\<close>

definition from_native :: "ConfigurableFloat \<Rightarrow> BitLayout \<Rightarrow> RoundingMode \<Rightarrow> ConfigurableFloat" where
  "from_native v L mode = round_fp (value_of v) L mode"

definition convert :: "ConfigurableFloat \<Rightarrow> BitLayout \<Rightarrow> RoundingMode \<Rightarrow> ConfigurableFloat" where
  "convert v L mode = round_fp (value_of v) L mode"

definition to_double :: "ConfigurableFloat \<Rightarrow> ConfigurableFloat" where
  "to_double v = round_fp (value_of v) binary64 RoundNearestEven"

text \<open>An integer converted to a floating-point type.\<close>

definition from_int :: "int \<Rightarrow> BitLayout \<Rightarrow> RoundingMode \<Rightarrow> ConfigurableFloat" where
  "from_int n L mode = round_fp (Finite (n < 0) \<bar>n\<bar> 0) L mode"

text \<open>Modelled from the spec: the promotion rule for mixed-layout binary operations
  (section 4.3), implemented by the operator overloads of the missing \<open>ap_float.hpp\<close>.  The
  layout with the larger \<open>E\<close> is dominant, with the larger \<open>M\<close> as tie-break; an operand of
  another layout is converted with RoundNearestEven, unless its own mode is
  RoundTowardZero, which is then used.  An operand that has the layout already is left as
  it is.\<close>

definition dominant :: "BitLayout \<Rightarrow> BitLayout \<Rightarrow> BitLayout" where
  "dominant L1 L2 =
     (if ebits L2 < ebits L1 \<or> (ebits L1 = ebits L2 \<and> mbits L2 \<le> mbits L1) then L1 else L2)"

definition promotion_mode :: "ConfigurableFloat \<Rightarrow> RoundingMode" where
  "promotion_mode x =
     (if rmode x = RoundTowardZero then RoundTowardZero else RoundNearestEven)"

definition promote :: "ConfigurableFloat \<Rightarrow> BitLayout \<Rightarrow> ConfigurableFloat" where
  "promote x L = (if layout x = L then x else convert x L (promotion_mode x))"

subsection \<open>Arithmetic operations\<close>

text \<open>Modelled from the spec: SubnormalMode (section 3).  With \<open>Off\<close>, a result whose
  magnitude is below the smallest normal value is flushed to a signed zero before
  rounding.\<close>

definition flush :: "SubnormalMode \<Rightarrow> BitLayout \<Rightarrow> exact \<Rightarrow> exact" where
  "flush sm L v =
     (case v of
        Finite s m e \<Rightarrow>
          if sm = Off \<and> m \<noteq> 0 \<and> e + bitlen m - 1 < min_normal_exponent L
          then Finite s 0 0 else v
      | _ \<Rightarrow> v)"

text \<open>Modelled from the spec: AccuracyTier (section 3).  High is correctly rounded (at most
  0.5 ULP), which is rounding to nearest.  Low only promises 1 ULP and leaves the algorithm
  open; the model takes truncation, the cheapest rounding within that bound.\<close>

definition tier_mode :: "AccuracyTier \<Rightarrow> RoundingMode" where
  "tier_mode t = (case t of High \<Rightarrow> RoundNearestEven | Low \<Rightarrow> RoundTowardZero)"

text \<open>Modelled from the spec: the last two steps of every operation (section 4.4, steps 3
  and 4), missing with the header: flush, then round into the result layout.  The
  result has the plain type \<open>ap_float<E, M>\<close>, whose rounding mode is the default
  RoundNearestEven (kernel B: the result of the multiply is promoted using RNE).\<close>

definition finish :: "BitLayout \<Rightarrow> AccuracyTier \<Rightarrow> SubnormalMode \<Rightarrow> exact \<Rightarrow> ConfigurableFloat" where
  "finish L t sm v = (round_fp (flush sm L v) L (tier_mode t)) \<lparr> rmode := RoundNearestEven \<rparr>"

text \<open>Modelled from the spec: ArithmeticOps (section 4.4), the explicit math functions
  \<open>ap_float<E, M>::add/sub/div/mul<Accuracy, Subnormal>\<close> and \<open>ihc_sqrt\<close> of the missing
  \<open>ap_float_math.hpp\<close>.  Addition, subtraction and division first bring both operands to
  the working layout; multiplication takes the operands as they are.\<close>

definition add_fp ::
  "BitLayout \<Rightarrow> AccuracyTier \<Rightarrow> SubnormalMode \<Rightarrow> ConfigurableFloat \<Rightarrow> ConfigurableFloat \<Rightarrow> ConfigurableFloat" where
  "add_fp L t sm op1 op2 =
     finish L t sm (exact_add (value_of (promote op1 L)) (value_of (promote op2 L)))"

definition sub_fp ::
  "BitLayout \<Rightarrow> AccuracyTier \<Rightarrow> SubnormalMode \<Rightarrow> ConfigurableFloat \<Rightarrow> ConfigurableFloat \<Rightarrow> ConfigurableFloat" where
  "sub_fp L t sm op1 op2 =
     finish L t sm (exact_sub (value_of (promote op1 L)) (value_of (promote op2 L)))"

definition div_fp ::
  "BitLayout \<Rightarrow> AccuracyTier \<Rightarrow> SubnormalMode \<Rightarrow> ConfigurableFloat \<Rightarrow> ConfigurableFloat \<Rightarrow> ConfigurableFloat" where
  "div_fp L t sm op1 op2 =
     finish L t sm (exact_div (mbits L + 2) (value_of (promote op1 L)) (value_of (promote op2 L)))"

definition mul_fp ::
  "BitLayout \<Rightarrow> AccuracyTier \<Rightarrow> SubnormalMode \<Rightarrow> ConfigurableFloat \<Rightarrow> ConfigurableFloat \<Rightarrow> ConfigurableFloat" where
  "mul_fp L t sm op1 op2 = finish L t sm (exact_mul (value_of op1) (value_of op2))"

definition sqrt_fp :: "AccuracyTier \<Rightarrow> SubnormalMode \<Rightarrow> ConfigurableFloat \<Rightarrow> ConfigurableFloat" where
  "sqrt_fp t sm op =
     finish (layout op) t sm (exact_sqrt (mbits (layout op) + 2) (value_of op))"

text \<open>Modelled from the spec: the overloaded operators of \<open>ap_float\<close> (missing with the
  header).  They work in the dominant layout of their operands, with the defaults the
  kernels' comments name: high accuracy and no subnormal processing.  Negation and the
  absolute value only touch the sign bit; comparisons compare values.\<close>

definition op_add :: "ConfigurableFloat \<Rightarrow> ConfigurableFloat \<Rightarrow> ConfigurableFloat" where
  "op_add x y = add_fp (dominant (layout x) (layout y)) High Off x y"

definition op_sub :: "ConfigurableFloat \<Rightarrow> ConfigurableFloat \<Rightarrow> ConfigurableFloat" where
  "op_sub x y = sub_fp (dominant (layout x) (layout y)) High Off x y"

definition op_div :: "ConfigurableFloat \<Rightarrow> ConfigurableFloat \<Rightarrow> ConfigurableFloat" where
  "op_div x y = div_fp (dominant (layout x) (layout y)) High Off x y"

definition op_mul :: "ConfigurableFloat \<Rightarrow> ConfigurableFloat \<Rightarrow> ConfigurableFloat" where
  "op_mul x y =
     (let L = dominant (layout x) (layout y)
      in mul_fp L High Off (promote x L) (promote y L))"

definition op_neg :: "ConfigurableFloat \<Rightarrow> ConfigurableFloat" where
  "op_neg x = x \<lparr> sign_bit := \<not> sign_bit x \<rparr>"

definition op_abs :: "ConfigurableFloat \<Rightarrow> ConfigurableFloat" where
  "op_abs x = x \<lparr> sign_bit := False \<rparr>"

definition op_less :: "ConfigurableFloat \<Rightarrow> ConfigurableFloat \<Rightarrow> bool" where
  "op_less x y = exact_less (value_of x) (value_of y)"

definition op_greater :: "ConfigurableFloat \<Rightarrow> ConfigurableFloat \<Rightarrow> bool" where
  "op_greater x y = exact_less (value_of y) (value_of x)"

subsection \<open>The native types\<close>

text \<open>
  The arithmetic of the native \<open>double\<close> is IEEE-754 binary64: every operation gives the
  correctly rounded result (to nearest, ties to even), with subnormal numbers.  A decimal
  literal is the \<open>double\<close> (or \<open>float\<close>) nearest to the fraction it denotes.
\<close>

definition double_of :: "exact \<Rightarrow> ConfigurableFloat" where
  "double_of v = round_fp v binary64 RoundNearestEven"

definition double_literal :: "int \<Rightarrow> int \<Rightarrow> ConfigurableFloat" where
  "double_literal n d = double_of (exact_div 54 (Finite (n < 0) \<bar>n\<bar> 0) (Finite False d 0))"

definition float_literal :: "int \<Rightarrow> int \<Rightarrow> ConfigurableFloat" where
  "float_literal n d =
     round_fp (exact_div 25 (Finite (n < 0) \<bar>n\<bar> 0) (Finite False d 0)) binary32 RoundNearestEven"

definition double_add :: "ConfigurableFloat \<Rightarrow> ConfigurableFloat \<Rightarrow> ConfigurableFloat" where
  "double_add a b = double_of (exact_add (value_of a) (value_of b))"

definition double_sub :: "ConfigurableFloat \<Rightarrow> ConfigurableFloat \<Rightarrow> ConfigurableFloat" where
  "double_sub a b = double_of (exact_sub (value_of a) (value_of b))"

definition double_mul :: "ConfigurableFloat \<Rightarrow> ConfigurableFloat \<Rightarrow> ConfigurableFloat" where
  "double_mul a b = double_of (exact_mul (value_of a) (value_of b))"

definition double_div :: "ConfigurableFloat \<Rightarrow> ConfigurableFloat \<Rightarrow> ConfigurableFloat" where
  "double_div a b = double_of (exact_div 54 (value_of a) (value_of b))"

definition double_sqrt :: "ConfigurableFloat \<Rightarrow> ConfigurableFloat" where
  "double_sqrt a = double_of (exact_sqrt 54 (value_of a))"

definition double_neg :: "ConfigurableFloat \<Rightarrow> ConfigurableFloat" where
  "double_neg a = a \<lparr> sign_bit := \<not> sign_bit a \<rparr>"

definition fabs :: "ConfigurableFloat \<Rightarrow> ConfigurableFloat" where
  "fabs a = a \<lparr> sign_bit := False \<rparr>"

definition double_less :: "ConfigurableFloat \<Rightarrow> ConfigurableFloat \<Rightarrow> bool" where
  "double_less a b = exact_less (value_of a) (value_of b)"

definition double_greater :: "ConfigurableFloat \<Rightarrow> ConfigurableFloat \<Rightarrow> bool" where
  "double_greater a b = exact_less (value_of b) (value_of a)"

definition isnan :: "ConfigurableFloat \<Rightarrow> bool" where
  "isnan a = is_nan a"

definition NAN :: ConfigurableFloat where
  "NAN = nan binary64 RoundNearestEven"

text \<open>A \<open>double\<close> passed for a \<open>float\<close> parameter is converted to the nearest \<open>float\<close>.\<close>

definition double_to_float :: "ConfigurableFloat \<Rightarrow> ConfigurableFloat" where
  "double_to_float a = round_fp (value_of a) binary32 RoundNearestEven"

definition is_double :: "ConfigurableFloat \<Rightarrow> bool" where
  "is_double a = (layout a = binary64 \<and> rmode a = RoundNearestEven \<and> well_formed a)"

section \<open>The reference solver and the tutorial kernels (ap_float tutorial)\<close>

type_synonym double = ConfigurableFloat
type_synonym float = ConfigurableFloat
type_synonym DoublePair = "double \<times> double"

text \<open>\<open>quadratic_gold\<close>, on native doubles; every operation is rounded on its own (no
  fused multiply-add).\<close>

definition quadratic_gold :: "double \<Rightarrow> double \<Rightarrow> double \<Rightarrow> DoublePair" where
  "quadratic_gold a b c =
     (let rooted = double_sub (double_mul b b) (double_mul (double_mul (double_literal 4 1) a) c);
          rooted_abs = fabs rooted
      in if double_greater rooted (double_literal 0 1) \<or>
            double_less rooted_abs (double_literal 1 (10 ^ 20))
         then let root = double_sqrt rooted_abs
              in (double_div (double_add (double_neg b) root) (double_mul (double_literal 2 1) a),
                  double_div (double_sub (double_neg b) root) (double_mul (double_literal 2 1) a))
         else (NAN, NAN))"

definition kSineApproximateTermsCount :: int where
  "kSineApproximateTermsCount = 10"

definition kSineApproximationEpsilon :: double where
  "kSineApproximationEpsilon = double_literal 1 (10 ^ 13)"

text \<open>The types of the tutorial: layout and rounding mode of each alias.\<close>

type_synonym APFloatType = ConfigurableFloat
type_synonym APDoubleType = ConfigurableFloat
type_synonym PairAPDoubleType = "APDoubleType \<times> APDoubleType"

definition kRoundingModeRZERO :: RoundingMode where
  "kRoundingModeRZERO = RoundTowardZero"

definition kRoundingModeRNE :: RoundingMode where
  "kRoundingModeRNE = RoundNearestEven"

text \<open>Constructing a value of a tutorial type from a native value or from a value of
  another \<open>ap_float\<close> type converts with the rounding mode of the constructed type.\<close>

definition APFloatType :: "ConfigurableFloat \<Rightarrow> APFloatType" where
  "APFloatType v = from_native v binary32 RoundNearestEven"

definition APDoubleType :: "ConfigurableFloat \<Rightarrow> APDoubleType" where
  "APDoubleType v = from_native v binary64 RoundNearestEven"

definition APFloatTypeB :: "ConfigurableFloat \<Rightarrow> ConfigurableFloat" where
  "APFloatTypeB v = from_native v binary32 kRoundingModeRZERO"

definition APDoubleTypeB :: "ConfigurableFloat \<Rightarrow> ConfigurableFloat" where
  "APDoubleTypeB v = from_native v binary64 kRoundingModeRZERO"

definition layout_11_44 :: BitLayout where
  "layout_11_44 = \<lparr> ebits = 11, mbits = 44 \<rparr>"

definition APDoubleTypeC :: "ConfigurableFloat \<Rightarrow> ConfigurableFloat" where
  "APDoubleTypeC v = from_native v layout_11_44 kRoundingModeRZERO"

subsection \<open>Polynomial sine approximation\<close>

text \<open>
  \<open>SineApproximationKernel\<close> is a template over the number type \<open>T\<close>; the model takes the
  operations of \<open>T\<close> that the kernel uses as a record: the conversion of a \<open>double\<close> literal
  and of an \<open>int\<close> to \<open>T\<close>, and \<open>+\<close>, \<open>*\<close>, \<open>/\<close> and unary minus.  The loop counter stays
  between 1 and 11, so the \<open>int\<close> expression \<open>2 * i * (2 * i + 1)\<close> cannot overflow.
\<close>

record 'a number_type =
  of_double :: "double \<Rightarrow> 'a"
  of_int_value :: "int \<Rightarrow> 'a"
  plus_op :: "'a \<Rightarrow> 'a \<Rightarrow> 'a"
  times_op :: "'a \<Rightarrow> 'a \<Rightarrow> 'a"
  divide_op :: "'a \<Rightarrow> 'a \<Rightarrow> 'a"
  uminus_op :: "'a \<Rightarrow> 'a"

record 'a sine_vars =
  res :: 'a
  sign :: 'a
  term_val :: 'a
  numerator :: 'a
  denom :: 'a

definition sine_body :: "'a number_type \<Rightarrow> 'a \<Rightarrow> int \<Rightarrow> 'a sine_vars \<Rightarrow> 'a sine_vars" where
  "sine_body T x i v =
     (let res1 = plus_op T (res v) (term_val v);
          sign1 = uminus_op T (sign v);
          denom1 = times_op T (denom v) (of_int_value T (2 * i * (2 * i + 1)));
          numerator1 = times_op T (numerator v) (times_op T x x);
          term1 = divide_op T (times_op T sign1 numerator1) denom1
      in \<lparr> res = res1, sign = sign1, term_val = term1, numerator = numerator1, denom = denom1 \<rparr>)"

function sine_loop :: "'a number_type \<Rightarrow> 'a \<Rightarrow> int \<Rightarrow> 'a sine_vars \<Rightarrow> 'a sine_vars" where
  "sine_loop T x i v =
     (if i \<le> kSineApproximateTermsCount then sine_loop T x (i + 1) (sine_body T x i v) else v)"
  by pat_completeness auto
termination
  by (relation "measure (\<lambda>(T, x, i, v). nat (kSineApproximateTermsCount + 1 - i))") auto

declare sine_loop.simps [simp del]

definition SineApproximationKernel :: "'a number_type \<Rightarrow> 'a \<Rightarrow> 'a" where
  "SineApproximationKernel T input =
     res (sine_loop T input 1
            \<lparr> res = of_double T (double_literal 0 1),
              sign = of_double T (double_literal 1 1),
              term_val = input,
              numerator = input,
              denom = of_double T (double_literal 1 1) \<rparr>)"

text \<open>The two instances of the template: the native \<open>double\<close>, and an \<open>ap_float\<close> type of
  a given layout and rounding mode with its overloaded operators.\<close>

definition double_of_double :: "double \<Rightarrow> double" where
  "double_of_double d = d"

definition double_of_int :: "int \<Rightarrow> double" where
  "double_of_int n = from_int n binary64 RoundNearestEven"

definition double_type :: "double number_type" where
  "double_type =
     \<lparr> of_double = double_of_double,
       of_int_value = double_of_int,
       plus_op = double_add,
       times_op = double_mul,
       divide_op = double_div,
       uminus_op = double_neg \<rparr>"

definition ap_float_of_double :: "BitLayout \<Rightarrow> RoundingMode \<Rightarrow> double \<Rightarrow> ConfigurableFloat" where
  "ap_float_of_double L mode d = from_native d L mode"

definition ap_float_of_int :: "BitLayout \<Rightarrow> RoundingMode \<Rightarrow> int \<Rightarrow> ConfigurableFloat" where
  "ap_float_of_int L mode n = from_int n L mode"

definition ap_float_type :: "BitLayout \<Rightarrow> RoundingMode \<Rightarrow> ConfigurableFloat number_type" where
  "ap_float_type L mode =
     \<lparr> of_double = ap_float_of_double L mode,
       of_int_value = ap_float_of_int L mode,
       plus_op = op_add,
       times_op = op_mul,
       divide_op = op_div,
       uminus_op = op_neg \<rparr>"

text \<open>Exact rational arithmetic, to read off which polynomial the kernel evaluates.\<close>

definition rat_of_exact :: "exact \<Rightarrow> rat" where
  "rat_of_exact v =
     (case v of
        Finite s m e \<Rightarrow>
          if 0 \<le> e then of_int (with_sign s m * 2 ^ nat e)
          else of_int (with_sign s m) / of_int (2 ^ nat (- e))
      | _ \<Rightarrow> 0)"

definition rat_of_double :: "double \<Rightarrow> rat" where
  "rat_of_double d = rat_of_exact (value_of d)"

definition rat_type :: "rat number_type" where
  "rat_type =
     \<lparr> of_double = rat_of_double,
       of_int_value = of_int,
       plus_op = (+),
       times_op = (*),
       divide_op = (/),
       uminus_op = uminus \<rparr>"

definition M_PI_4 :: double where
  "M_PI_4 = double_literal 78539816339744830962 (10 ^ 20)"

definition M_SQRT1_2 :: double where
  "M_SQRT1_2 = double_literal 70710678118654752440 (10 ^ 20)"

text \<open>\<open>TestSineApproximation\<close>: the two differences and the two verdicts; the printing is
  left out.\<close>

definition sine_difference_a :: double where
  "sine_difference_a =
     (let input = M_PI_4;
          expected = M_SQRT1_2;
          double_result = SineApproximationKernel double_type input
      in fabs (double_sub double_result expected))"

definition sine_difference_b :: double where
  "sine_difference_b =
     (let input = M_PI_4;
          expected = M_SQRT1_2;
          ap_float_input = APDoubleTypeC input;
          ap_float_result =
            SineApproximationKernel (ap_float_type layout_11_44 kRoundingModeRZERO) ap_float_input
      in fabs (double_sub (to_double ap_float_result) expected))"

definition TestSineApproximation :: bool where
  "TestSineApproximation =
     (let passed_native = double_less sine_difference_a kSineApproximationEpsilon;
          passed_non_native = double_less sine_difference_b kSineApproximationEpsilon
      in if passed_native \<and> passed_non_native then True else False)"

subsection \<open>Conversion kernels\<close>

definition TestConversionKernelA :: "APFloatType \<Rightarrow> APDoubleType" where
  "TestConversionKernelA num =
     (let x = APFloatType (float_literal 31 10);
          y = APDoubleType (double_literal 41 10);
          z = APFloatType (double_literal 41 10)
      in op_add (op_add (op_mul x num) (op_mul y num)) z)"

definition TestConversionKernelB :: "ConfigurableFloat \<Rightarrow> ConfigurableFloat" where
  "TestConversionKernelB num =
     (let x = APFloatTypeB (float_literal 31 10);
          y = APDoubleTypeB (double_literal 41 10);
          z = APFloatTypeB (double_literal 41 10)
      in APDoubleTypeB (op_add (op_add (op_mul x num) (op_mul y num)) z))"

definition TestConversionKernelC :: "APFloatType \<Rightarrow> APDoubleType" where
  "TestConversionKernelC num =
     (let x = APFloatType (float_literal 31 10);
          y = APDoubleType (double_literal 41 10);
          z = APFloatType (convert y binary32 kRoundingModeRZERO)
      in op_add
           (op_add (convert (op_mul x num) binary64 kRoundingModeRNE) (op_mul y num))
           (convert z binary64 kRoundingModeRZERO))"

subsection \<open>Quadratic equation solver\<close>

definition ihc_sqrt :: "ConfigurableFloat \<Rightarrow> ConfigurableFloat" where
  "ihc_sqrt x = sqrt_fp High Off x"

definition TestSimpleQuadraticEqnSolver :: "float \<Rightarrow> float \<Rightarrow> float \<Rightarrow> PairAPDoubleType" where
  "TestSimpleQuadraticEqnSolver A B C =
     (let a = APDoubleType A; b = APDoubleType B; c = APDoubleType C;
          rooted = op_sub (op_mul b b) (op_mul (op_mul (APDoubleType (double_literal 4 1)) a) c)
      in if op_greater rooted (double_literal 0 1) \<or>
            op_less (op_abs rooted) (double_literal 1 (10 ^ 20))
         then let rooted1 = (if op_less rooted (double_literal 0 1) then op_neg rooted else rooted);
                  root = ihc_sqrt rooted1
              in (op_div (op_add (op_neg b) root) (op_mul (APDoubleType (double_literal 2 1)) a),
                  op_div (op_sub (op_neg b) root) (op_mul (APDoubleType (double_literal 2 1)) a))
         else (nan binary64 RoundNearestEven, nan binary64 RoundNearestEven))"

definition kAccuracyLow :: AccuracyTier where "kAccuracyLow = Low"
definition kAccuracyHigh :: AccuracyTier where "kAccuracyHigh = High"
definition kSubnormalOff :: SubnormalMode where "kSubnormalOff = Off"
definition kSubnormalOn :: SubnormalMode where "kSubnormalOn = On"

definition TestSpecializedQuadraticEqnSolver :: "float \<Rightarrow> float \<Rightarrow> float \<Rightarrow> PairAPDoubleType" where
  "TestSpecializedQuadraticEqnSolver A B C =
     (let a = APFloatType A; b = APFloatType B; c = APFloatType C;
          bsquare = mul_fp binary64 kAccuracyLow kSubnormalOff b b;
          fourA = mul_fp binary64 kAccuracyLow kSubnormalOff (APFloatType (float_literal 4 1)) a;
          fourAC = mul_fp binary64 kAccuracyLow kSubnormalOff fourA c;
          rooted = sub_fp binary64 kAccuracyHigh kSubnormalOn bsquare fourAC
      in if op_greater rooted (double_literal 0 1) \<or>
            op_less (op_abs rooted) (double_literal 1 (10 ^ 20))
         then let rooted1 = (if op_less rooted (double_literal 0 1) then op_neg rooted else rooted);
                  root = ihc_sqrt rooted1
              in (div_fp binary64 kAccuracyLow kSubnormalOff
                    (op_add (op_neg b) root) (op_mul (APDoubleType (double_literal 2 1)) a),
                  div_fp binary64 kAccuracyLow kSubnormalOff
                    (op_sub (op_neg b) root) (op_mul (APDoubleType (double_literal 2 1)) a))
         else (nan binary64 RoundNearestEven, nan binary64 RoundNearestEven))"

definition kQuadraticEqnEpsilon :: double where
  "kQuadraticEqnEpsilon = double_literal 1 (10 ^ 6)"

definition testvec :: "(double \<times> double \<times> double) list" where
  "testvec =
     [(double_literal 1 1, double_literal (- 51) 10, double_literal 6 1),
      (double_literal 2 1, double_literal 41 10, double_literal 2 1),
      (double_literal 1 1, double_literal 1 10, double_literal 0 1)]"

text \<open>One round of the loop of \<open>RunSpecifiedQuadraticEqnSolverKernel\<close>: the kernel under
  test receives the coefficients as \<open>float\<close>, the reference as \<open>double\<close>; \<open>passed\<close> is
  cleared when one of the two differences exceeds the tolerance and left alone otherwise.\<close>

fun check_testvec ::
  "(float \<Rightarrow> float \<Rightarrow> float \<Rightarrow> PairAPDoubleType) \<Rightarrow> bool \<Rightarrow> double \<times> double \<times> double \<Rightarrow> bool" where
  "check_testvec func passed (a, b, c) =
       (let outputs = func (double_to_float a) (double_to_float b) (double_to_float c);
            golden_results = quadratic_gold a b c;
            diff_root1 = fabs (double_sub (to_double (fst outputs)) (fst golden_results));
            diff_root2 = fabs (double_sub (to_double (snd outputs)) (snd golden_results))
        in if double_greater diff_root1 kQuadraticEqnEpsilon \<or>
              double_greater diff_root2 kQuadraticEqnEpsilon
           then False else passed)"

definition RunSpecifiedQuadraticEqnSolverKernel ::
  "(float \<Rightarrow> float \<Rightarrow> float \<Rightarrow> PairAPDoubleType) \<Rightarrow> bool" where
  "RunSpecifiedQuadraticEqnSolverKernel func =
     (let passed = foldl (check_testvec func) True testvec;
          nan_pair = func (double_to_float (double_literal 1 1)) (double_to_float (double_literal 2 1))
                       (double_to_float (double_literal 4 1))
      in if \<not> (isnan (to_double (fst nan_pair)) \<and> isnan (to_double (snd nan_pair)))
         then False else passed)"

definition TestQuadraticEquationSolverKernels :: bool where
  "TestQuadraticEquationSolverKernels =
     (let test_a = RunSpecifiedQuadraticEqnSolverKernel TestSimpleQuadraticEqnSolver;
          test_b = RunSpecifiedQuadraticEqnSolverKernel TestSpecializedQuadraticEqnSolver
      in if test_a \<and> test_b then True else False)"

section \<open>Auxiliary notions for the statements\<close>

text \<open>A \<open>double\<close> and a \<open>float\<close> given by the three fields of their bit pattern.\<close>

definition double_bits :: "bool \<Rightarrow> int \<Rightarrow> int \<Rightarrow> double" where
  "double_bits s e m = make_float binary64 RoundNearestEven s e m"

definition float_bits :: "bool \<Rightarrow> int \<Rightarrow> int \<Rightarrow> float" where
  "float_bits s e m = make_float binary32 RoundNearestEven s e m"

text \<open>The first \<open>n\<close> terms of the Taylor series of the sine.\<close>

definition taylor_sum :: "rat \<Rightarrow> nat \<Rightarrow> rat" where
  "taylor_sum x n = (\<Sum>j<n. (- 1) ^ j * x ^ (2 * j + 1) / of_nat (fact (2 * j + 1)))"

text \<open>What the variables of the sine kernel hold after \<open>k\<close> rounds of its loop, in exact
  arithmetic.\<close>

definition sine_invariant :: "rat \<Rightarrow> nat \<Rightarrow> rat sine_vars \<Rightarrow> bool" where
  "sine_invariant x k v =
     (res v = taylor_sum x k \<and>
      sign v = (- 1) ^ k \<and>
      term_val v = (- 1) ^ k * x ^ (2 * k + 1) / of_nat (fact (2 * k + 1)) \<and>
      numerator v = x ^ (2 * k + 1) \<and>
      denom v = of_nat (fact (2 * k + 1)))"

section \<open>Lemmas about the rounding policy\<close>

lemma bitlen_nonpos: "m \<le> 0 \<Longrightarrow> bitlen m = 0"
  by (subst bitlen.simps) simp

lemma bitlen_pos_unfold: "0 < m \<Longrightarrow> bitlen m = 1 + bitlen (m div 2)"
  by (subst bitlen.simps) simp

lemma bitlen_nonneg: "0 \<le> bitlen m"
proof (induction m rule: bitlen.induct)
  case (1 m)
  then show ?case by (subst bitlen.simps) auto
qed

lemma bitlen_unique:
  "0 \<le> n \<Longrightarrow> 2 ^ nat n \<le> m \<Longrightarrow> m < 2 ^ nat (n + 1) \<Longrightarrow> bitlen m = n + 1"
proof (induction "nat n" arbitrary: n m)
  case 0
  then have "n = 0" by simp
  with 0 have "m = 1" by simp
  then show ?case using \<open>n = 0\<close>
    by (simp add: bitlen_pos_unfold bitlen_nonpos)
next
  case (Suc k)
  then have n: "n = int k + 1" by linarith
  have mpos: "0 < m" using Suc.prems(2) by (smt (verit) zero_less_power)
  have p1: "(2::int) ^ nat n = 2 * 2 ^ nat (n - 1)"
    using n by (simp add: nat_add_distrib)
  have p2: "(2::int) ^ nat (n + 1) = 2 * 2 ^ nat n"
    using n by (simp add: nat_add_distrib)
  have lo: "2 ^ nat (n - 1) \<le> m div 2" using Suc.prems(2) p1 by linarith
  have hi: "m div 2 < 2 ^ nat (n - 1 + 1)" using Suc.prems(3) p2 by simp
  have "bitlen (m div 2) = (n - 1) + 1"
    using Suc.hyps(1)[of "n - 1" "m div 2"] Suc.hyps(2) n lo hi by simp
  then show ?case using mpos by (simp add: bitlen_pos_unfold)
qed

lemma bitlen_bound:
  "0 < m \<Longrightarrow> m < 2 ^ nat n \<Longrightarrow> bitlen m \<le> n"
proof (induction m arbitrary: n rule: bitlen.induct)
  case (1 m)
  have npos: "0 < n" using 1(2,3) by (cases "n \<le> 0") auto
  show ?case
  proof (cases "m div 2 = 0")
    case True
    then show ?thesis using 1(2) npos by (simp add: bitlen_pos_unfold bitlen_nonpos)
  next
    case False
    then have d: "0 < m div 2" using 1(2) by simp
    have p: "(2::int) ^ nat n = 2 * 2 ^ nat (n - 1)"
      using npos by (metis Suc_nat_eq_nat_zadd1 add.commute diff_add_cancel power_Suc zle_diff1_eq)
    have "m div 2 < 2 ^ nat (n - 1)" using 1(3) p by linarith
    then have "bitlen (m div 2) \<le> n - 1" using 1(1)[of "n - 1"] 1(2) d by simp
    then show ?thesis using 1(2) by (simp add: bitlen_pos_unfold)
  qed
qed

lemma max_exponent_field_pos: "valid_layout L \<Longrightarrow> 1 \<le> max_exponent_field L"
proof -
  assume v: "valid_layout L"
  then have "0 < nat (ebits L)" by (simp add: valid_layout_def)
  then have "(2::int) ^ 1 \<le> 2 ^ nat (ebits L)"
    by (intro power_increasing) auto
  then show ?thesis by (simp add: max_exponent_field_def)
qed

lemma shift_round_zero: "shift_round mode m 0 = m"
  by (simp add: shift_round_def)

lemma round_fp_Finite:
  assumes "m \<noteq> 0"
    and "lo = max (e + bitlen m - 1) (min_normal_exponent L)"
    and "sig = shift_round mode m (lo - mbits L - e)"
    and "c = (lo + bias L - 1) * 2 ^ nat (mbits L) + sig"
    and "c div 2 ^ nat (mbits L) < max_exponent_field L"
  shows "round_fp (Finite s m e) L mode
         = make_float L mode s (c div 2 ^ nat (mbits L)) (c mod 2 ^ nat (mbits L))"
  using assms by (simp add: round_fp_def Let_def)

lemma round_fp_subnormal:
  assumes v: "valid_layout L" and m0: "0 < m" and mlt: "m < 2 ^ nat (mbits L)"
  shows "round_fp (Finite s m (min_subnormal_exponent L)) L mode = make_float L mode s 0 m"
proof -
  have bl: "bitlen m \<le> mbits L" using bitlen_bound[OF m0 mlt] .
  have lo: "min_normal_exponent L = max (min_subnormal_exponent L + bitlen m - 1) (min_normal_exponent L)"
    using bl by (simp add: min_subnormal_exponent_def min_normal_exponent_def)
  have sg: "m = shift_round mode m (min_normal_exponent L - mbits L - min_subnormal_exponent L)"
    by (simp add: min_subnormal_exponent_def min_normal_exponent_def shift_round_zero)
  have c: "m = (min_normal_exponent L + bias L - 1) * 2 ^ nat (mbits L) + m"
    by (simp add: min_normal_exponent_def)
  have d: "m div 2 ^ nat (mbits L) = 0" using m0 mlt by simp
  have md: "m mod 2 ^ nat (mbits L) = m" using m0 mlt by simp
  have mx: "m div 2 ^ nat (mbits L) < max_exponent_field L"
    using max_exponent_field_pos[OF v] d by simp
  have nz: "m \<noteq> 0" using m0 by simp
  show ?thesis
    using round_fp_Finite[OF nz lo sg c mx, of s] by (simp only: d md)
qed

lemma round_fp_normal:
  assumes v: "valid_layout L" and e1: "1 \<le> ex" and e2: "ex < max_exponent_field L"
    and m0: "0 \<le> m" and mlt: "m < 2 ^ nat (mbits L)"
  shows "round_fp (Finite s (2 ^ nat (mbits L) + m) (ex - bias L - mbits L)) L mode
         = make_float L mode s ex m"
proof -
  let ?P = "(2::int) ^ nat (mbits L)"
  let ?e = "ex - bias L - mbits L"
  have Mpos: "0 \<le> mbits L" using v by (simp add: valid_layout_def)
  have Ppos: "0 < ?P" by simp
  have hi: "?P + m < 2 ^ nat (mbits L + 1)"
    using mlt Mpos by (simp add: nat_add_distrib)
  have bl: "bitlen (?P + m) = mbits L + 1"
    using bitlen_unique[OF Mpos _ hi] m0 by simp
  have lo: "ex - bias L = max (?e + bitlen (?P + m) - 1) (min_normal_exponent L)"
    using bl e1 by (simp add: min_normal_exponent_def)
  have sg: "?P + m = shift_round mode (?P + m) (ex - bias L - mbits L - ?e)"
    by (simp add: shift_round_zero)
  have c: "ex * ?P + m = (ex - bias L + bias L - 1) * ?P + (?P + m)"
    by (simp add: algebra_simps)
  have d: "(ex * ?P + m) div ?P = ex" using m0 mlt by simp
  have md: "(ex * ?P + m) mod ?P = m" using m0 mlt by simp
  have nz: "?P + m \<noteq> 0" using m0 Ppos by linarith
  have mx: "(ex * ?P + m) div ?P < max_exponent_field L" using e2 d by simp
  show ?thesis
    using round_fp_Finite[OF nz lo sg c mx, of s] by (simp only: d md)
qed

lemma round_fp_value_of:
  assumes wf: "well_formed x" and fin: "is_finite x"
  shows "round_fp (value_of x) (layout x) mode = x \<lparr> rmode := mode \<rparr>"
proof -
  let ?L = "layout x"
  have v: "valid_layout ?L" using wf by (simp add: well_formed_def)
  have ne: "biased_exponent x \<noteq> max_exponent_field ?L" using fin by (simp add: is_finite_def)
  have m0: "0 \<le> mantissa x" and mlt: "mantissa x < 2 ^ nat (mbits ?L)"
    and e0: "0 \<le> biased_exponent x" and e2: "biased_exponent x < max_exponent_field ?L"
    using wf ne by (auto simp: well_formed_def)
  show ?thesis
  proof (cases "biased_exponent x = 0")
    case True
    show ?thesis
    proof (cases "mantissa x = 0")
      case True
      with \<open>biased_exponent x = 0\<close> ne show ?thesis
        by (simp add: value_of_def round_fp_def make_float_def Let_def)
    next
      case False
      then have "0 < mantissa x" using m0 by simp
      from round_fp_subnormal[OF v this mlt] True ne show ?thesis
        by (simp add: value_of_def make_float_def Let_def)
    qed
  next
    case False
    then have "1 \<le> biased_exponent x" using e0 by simp
    from round_fp_normal[OF v this e2 m0 mlt] False ne show ?thesis
      by (simp add: value_of_def make_float_def Let_def)
  qed
qed

section \<open>Lemmas about special values\<close>

lemma value_of_nan: "is_nan x \<Longrightarrow> value_of x = NaN_value"
  by (simp add: is_nan_def value_of_def)

lemma value_of_infinite: "is_infinite x \<Longrightarrow> value_of x = Infinity (sign_bit x)"
  by (simp add: is_infinite_def value_of_def)

lemma value_of_zero:
  "valid_layout (layout x) \<Longrightarrow> is_zero x \<Longrightarrow> \<exists>e. value_of x = Finite (sign_bit x) 0 e"
  using max_exponent_field_pos[of "layout x"] by (simp add: is_zero_def value_of_def)

lemma is_nan_nan: "is_nan (nan L mode)"
  by (simp add: is_nan_def nan_def make_float_def)

lemma layout_round_fp: "layout (round_fp v L mode) = L"
  by (simp add: round_fp_def nan_def make_float_def Let_def
      split: exact.split RoundingMode.split)

lemma layout_finish: "layout (finish L t sm v) = L"
  by (simp add: finish_def layout_round_fp)

lemma layout_promote: "layout (promote x L) = L"
  by (simp add: promote_def convert_def layout_round_fp)

lemma promote_idem: "promote (promote x L) L = promote x L"
  by (simp add: promote_def convert_def layout_round_fp)

lemma round_fp_NaN: "round_fp NaN_value L mode = nan L mode"
  by (simp add: round_fp_def)

lemma finish_NaN: "is_nan (finish L t sm NaN_value)"
  by (simp add: finish_def flush_def round_fp_NaN is_nan_def nan_def make_float_def)

lemma value_of_promote_nan: "is_nan x \<Longrightarrow> value_of (promote x L) = NaN_value"
  by (simp add: promote_def convert_def value_of_nan round_fp_NaN is_nan_nan)

lemma value_of_round_fp_Infinity: "value_of (round_fp (Infinity s) L mode) = Infinity s"
  by (simp add: round_fp_def value_of_def make_float_def)

lemma value_of_promote_infinite:
  "is_infinite x \<Longrightarrow> value_of (promote x L) = Infinity (sign_bit x)"
  by (simp add: promote_def convert_def value_of_infinite value_of_round_fp_Infinity)

lemma value_of_round_fp_zero:
  "valid_layout L \<Longrightarrow> \<exists>e'. value_of (round_fp (Finite s 0 e) L mode) = Finite s 0 e'"
  using max_exponent_field_pos[of L]
  by (simp add: round_fp_def value_of_def make_float_def)

lemma value_of_promote_zero:
  assumes "valid_layout L" "valid_layout (layout x)" "is_zero x"
  shows "\<exists>e. value_of (promote x L) = Finite (sign_bit x) 0 e"
proof (cases "layout x = L")
  case True
  then show ?thesis using value_of_zero[OF assms(2,3)] by (simp add: promote_def)
next
  case False
  obtain e where "value_of x = Finite (sign_bit x) 0 e"
    using value_of_zero[OF assms(2,3)] by blast
  then show ?thesis using False value_of_round_fp_zero[OF assms(1)]
    by (simp add: promote_def convert_def)
qed

lemma exact_add_NaN_right: "exact_add x NaN_value = NaN_value"
  by (cases x) simp_all

lemma exact_mul_NaN_right: "exact_mul x NaN_value = NaN_value"
  by (cases x) simp_all

lemma exact_div_NaN_right: "exact_div p x NaN_value = NaN_value"
  by (cases x) simp_all

lemma exact_less_NaN_right: "\<not> exact_less x NaN_value"
  by (cases x) simp_all

lemma exact_sub_NaN_right: "exact_sub x NaN_value = NaN_value"
  by (simp add: exact_sub_def exact_add_NaN_right)

lemma exact_sub_NaN_left: "exact_sub NaN_value y = NaN_value"
  by (simp add: exact_sub_def)

lemma add_fp_nan: "is_nan x \<or> is_nan y \<Longrightarrow> is_nan (add_fp L t sm x y)"
  by (auto simp: add_fp_def value_of_promote_nan exact_add_NaN_right finish_NaN)

lemma sub_fp_nan: "is_nan x \<or> is_nan y \<Longrightarrow> is_nan (sub_fp L t sm x y)"
  by (auto simp: sub_fp_def value_of_promote_nan exact_sub_NaN_right exact_sub_NaN_left finish_NaN)

lemma mul_fp_nan: "is_nan x \<or> is_nan y \<Longrightarrow> is_nan (mul_fp L t sm x y)"
  by (auto simp: mul_fp_def value_of_nan exact_mul_NaN_right finish_NaN)

lemma div_fp_nan: "is_nan x \<or> is_nan y \<Longrightarrow> is_nan (div_fp L t sm x y)"
  by (auto simp: div_fp_def value_of_promote_nan exact_div_NaN_right finish_NaN)

lemma sqrt_fp_nan: "is_nan x \<Longrightarrow> is_nan (sqrt_fp t sm x)"
  by (simp add: sqrt_fp_def value_of_nan finish_NaN)

lemma sub_fp_inf_inf:
  "is_infinite x \<Longrightarrow> is_infinite y \<Longrightarrow> sign_bit x = sign_bit y \<Longrightarrow> is_nan (sub_fp L t sm x y)"
  by (simp add: sub_fp_def value_of_promote_infinite exact_sub_def finish_NaN)

lemma add_fp_inf_inf:
  "is_infinite x \<Longrightarrow> is_infinite y \<Longrightarrow> sign_bit x \<noteq> sign_bit y \<Longrightarrow> is_nan (add_fp L t sm x y)"
  by (simp add: add_fp_def value_of_promote_infinite finish_NaN)

lemma mul_fp_zero_inf:
  assumes "valid_layout (layout x)" "is_zero x" "is_infinite y"
  shows "is_nan (mul_fp L t sm x y)" and "is_nan (mul_fp L t sm y x)"
proof -
  obtain e where "value_of x = Finite (sign_bit x) 0 e"
    using value_of_zero[OF assms(1,2)] by blast
  then show "is_nan (mul_fp L t sm x y)" and "is_nan (mul_fp L t sm y x)"
    using assms(3) by (simp_all add: mul_fp_def value_of_infinite finish_NaN)
qed

lemma div_fp_zero_zero:
  assumes "valid_layout L" "valid_layout (layout x)" "valid_layout (layout y)"
    "is_zero x" "is_zero y"
  shows "is_nan (div_fp L t sm x y)"
proof -
  obtain e1 where "value_of (promote x L) = Finite (sign_bit x) 0 e1"
    using value_of_promote_zero[OF assms(1,2,4)] by blast
  moreover obtain e2 where "value_of (promote y L) = Finite (sign_bit y) 0 e2"
    using value_of_promote_zero[OF assms(1,3,5)] by blast
  ultimately show ?thesis by (simp add: div_fp_def finish_NaN)
qed

lemma div_fp_inf_inf:
  "is_infinite x \<Longrightarrow> is_infinite y \<Longrightarrow> is_nan (div_fp L t sm x y)"
  by (simp add: div_fp_def value_of_promote_infinite finish_NaN)

lemma is_nan_double_of_NaN: "is_nan (double_of NaN_value)"
  by (simp add: double_of_def round_fp_NaN is_nan_nan)

lemma is_nan_to_double: "is_nan x \<Longrightarrow> is_nan (to_double x)"
  by (simp add: to_double_def value_of_nan round_fp_NaN is_nan_nan)

lemma is_nan_double_sub: "is_nan a \<or> is_nan b \<Longrightarrow> is_nan (double_sub a b)"
  by (auto simp: double_sub_def value_of_nan exact_sub_NaN_right exact_sub_NaN_left is_nan_double_of_NaN)

lemma is_nan_fabs: "is_nan a \<Longrightarrow> is_nan (fabs a)"
  by (simp add: fabs_def is_nan_def)

lemma not_greater_nan: "is_nan a \<Longrightarrow> \<not> double_greater a b"
  by (simp add: double_greater_def value_of_nan exact_less_NaN_right)

lemma rmode_round_fp: "rmode (round_fp v L mode) = mode"
  by (simp add: round_fp_def nan_def make_float_def Let_def
      split: exact.split RoundingMode.split)

lemma rmode_finish: "rmode (finish L t sm v) = RoundNearestEven"
  by (simp add: finish_def)

section \<open>Lemmas about signs and comparisons\<close>

lemma mantissa_round_fp_nonneg: "0 \<le> mantissa (round_fp v L mode)"
  by (simp add: round_fp_def nan_def make_float_def Let_def
      split: exact.split RoundingMode.split)

lemma value_of_cases:
  assumes "0 \<le> mantissa x"
  shows "value_of x = NaN_value \<and> is_nan x \<or>
         (\<exists>s. value_of x = Infinity s) \<or>
         (\<exists>s m e. value_of x = Finite s m e \<and> 0 \<le> m)"
  using assms by (auto simp: value_of_def is_nan_def Let_def)

lemma value_of_fabs:
  "value_of (fabs x) =
     (case value_of x of
        NaN_value \<Rightarrow> NaN_value
      | Infinity s \<Rightarrow> Infinity False
      | Finite s m e \<Rightarrow> Finite False m e)"
  by (simp add: value_of_def fabs_def Let_def)

lemma literal_values:
  "value_of (double_literal 0 1) = Finite False 0 (- 1074)"
  "value_of (double_literal 1 (10 ^ 20)) = Finite False 6646139978924579 (- 119)"
  "value_of (double_literal 1 100000000000000000000) = Finite False 6646139978924579 (- 119)"
  by code_simp+

lemma neither_positive_nor_tiny:
  assumes m: "0 \<le> mantissa d"
    and c: "\<not> (double_greater d (double_literal 0 1) \<or>
               double_less (fabs d) (double_literal 1 (10 ^ 20)))"
  shows "is_nan d \<or> double_less d (double_literal 0 1)"
proof -
  consider (nan) "value_of d = NaN_value \<and> is_nan d"
    | (inf) s where "value_of d = Infinity s"
    | (fin) s m e where "value_of d = Finite s m e" "0 \<le> m"
    using value_of_cases[OF m] by blast
  then show ?thesis
  proof cases
    case nan
    then show ?thesis by simp
  next
    case inf
    then show ?thesis using c
      by (simp add: double_greater_def double_less_def literal_values)
  next
    case fin
    have ng: "\<not> 0 < with_sign s (m * 2 ^ nat (e - min (- 1074) e))"
      using c fin(1) by (simp add: double_greater_def literal_values Let_def with_sign_def)
    have nl: "\<not> m * 2 ^ nat (e - min e (- 119)) < 6646139978924579 * 2 ^ nat (- 119 - min e (- 119))"
      using c fin(1) by (simp add: double_less_def literal_values value_of_fabs Let_def with_sign_def)
    have mpos: "0 < m"
    proof (rule ccontr)
      assume "\<not> 0 < m"
      then have "m = 0" using fin(2) by simp
      then show False using nl by simp
    qed
    have p: "0 < m * 2 ^ nat (e - min (- 1074) e)" using mpos by simp
    have s: "s" using ng p by (cases s) (simp_all add: with_sign_def)
    have "0 < m * 2 ^ nat (e - min e (- 1074))" using mpos by simp
    then show ?thesis using fin(1) s
      by (simp add: double_less_def literal_values Let_def with_sign_def)
  qed
qed

lemma mantissa_double_sub_nonneg: "0 \<le> mantissa (double_sub a b)"
  by (simp add: double_sub_def double_of_def mantissa_round_fp_nonneg)

section \<open>The polynomial of the sine kernel\<close>

lemma rat_literals:
  "rat_of_double (double_literal 0 1) = 0" "rat_of_double (double_literal 1 1) = 1"
  by code_simp+

lemma sine_invariant_init:
  "sine_invariant x 0
     \<lparr> res = of_double rat_type (double_literal 0 1),
       sign = of_double rat_type (double_literal 1 1),
       term_val = x, numerator = x,
       denom = of_double rat_type (double_literal 1 1) \<rparr>"
  by (simp add: sine_invariant_def taylor_sum_def rat_type_def rat_literals)

lemma sine_invariant_step:
  assumes "sine_invariant x k v"
  shows "sine_invariant x (Suc k) (sine_body rat_type x (int k + 1) v)"
proof -
  have f: "(of_nat (fact (2 * Suc k + 1)) :: rat)
           = of_nat (fact (2 * k + 1)) * of_int (2 * (int k + 1) * (2 * (int k + 1) + 1))"
    by (simp add: algebra_simps)
  show ?thesis
    using assms unfolding sine_invariant_def sine_body_def Let_def rat_type_def
    apply (simp only: number_type.simps sine_vars.simps f)
    apply (simp add: taylor_sum_def algebra_simps)
    done
qed

lemma sine_loop_invariant:
  assumes "sine_invariant x k v" and "k \<le> 10"
  shows "sine_invariant x 10 (sine_loop rat_type x (int k + 1) v)"
  using assms
proof (induction "10 - k" arbitrary: k v)
  case 0
  then have "k = 10" by simp
  then show ?case using 0
    by (subst sine_loop.simps) (simp add: kSineApproximateTermsCount_def)
next
  case (Suc n)
  then have k: "k < 10" by simp
  have "sine_invariant x 10 (sine_loop rat_type x (int (Suc k) + 1) (sine_body rat_type x (int k + 1) v))"
    using Suc.hyps(1)[of "Suc k"] Suc.hyps(2) sine_invariant_step[OF Suc.prems(1)] k by simp
  then show ?case using k
    by (subst sine_loop.simps) (simp add: kSineApproximateTermsCount_def add.commute)
qed

lemma sine_kernel_taylor: "SineApproximationKernel rat_type x = taylor_sum x 10"
  using sine_loop_invariant[OF sine_invariant_init, of x]
  by (simp add: SineApproximationKernel_def sine_invariant_def)

section \<open>Runs of the reference solver and of the kernels\<close>

text \<open>The literals of the test vectors, as \<open>double\<close> and after the conversion to the
  \<open>float\<close> parameters of the kernels.\<close>

lemma literal_bits:
  "double_literal 1 1 = double_bits False 1023 0"
  "double_literal 2 1 = double_bits False 1024 0"
  "double_literal 4 1 = double_bits False 1025 0"
  "double_literal 6 1 = double_bits False 1025 2251799813685248"
  "double_literal (- 51) 10 = double_bits True 1025 1238489897526886"
  "double_literal (- 12) 1 = double_bits True 1026 2251799813685248"
  by code_simp+

lemma float_argument_bits:
  "double_to_float (double_literal 1 1) = float_bits False 127 0"
  "double_to_float (double_literal 2 1) = float_bits False 128 0"
  "double_to_float (double_literal 4 1) = float_bits False 129 0"
  "double_to_float (double_literal 6 1) = float_bits False 129 4194304"
  "double_to_float (double_literal (- 51) 10) = float_bits True 129 2306867"
  by code_simp+

lemma quadratic_gold_run_51:
  "quadratic_gold (double_literal 1 1) (double_literal (- 51) 10) (double_literal 6 1)
   = (double_bits False 1024 2834728509532854, double_bits False 1023 3788102198412332)"
  by code_simp

lemma quadratic_gold_run_124:
  "quadratic_gold (double_literal 1 1) (double_literal 2 1) (double_literal 4 1) = (NAN, NAN)"
  by code_simp

lemma simple_solver_run_51:
  "TestSimpleQuadraticEqnSolver (float_bits False 127 0) (float_bits True 129 2306867)
     (float_bits False 129 4194304)
   = (double_bits False 1024 2834728015905494, double_bits False 1023 3788102756170323)"
  by code_simp

lemma specialized_solver_run_51:
  "TestSpecializedQuadraticEqnSolver (float_bits False 127 0) (float_bits True 129 2306867)
     (float_bits False 129 4194304)
   = (double_bits False 1024 2834728015905494, double_bits False 1023 3788102756170323)"
  by code_simp

lemma simple_solver_run_124:
  "TestSimpleQuadraticEqnSolver (float_bits False 127 0) (float_bits False 128 0)
     (float_bits False 129 0)
   = (nan binary64 RoundNearestEven, nan binary64 RoundNearestEven)"
  by code_simp

lemma specialized_solver_run_124:
  "TestSpecializedQuadraticEqnSolver (float_bits False 127 0) (float_bits False 128 0)
     (float_bits False 129 0)
   = (nan binary64 RoundNearestEven, nan binary64 RoundNearestEven)"
  by code_simp

lemma is_nan_NAN: "is_nan NAN"
  by (simp add: NAN_def is_nan_nan)

lemma sine_double_run:
  "SineApproximationKernel double_type M_PI_4 = double_bits False 1022 1865452045155276"
  by code_simp

lemma sine_ap_float_run:
  "SineApproximationKernel (ap_float_type layout_11_44 kRoundingModeRZERO) (APDoubleTypeC M_PI_4)
   = make_float layout_11_44 RoundNearestEven False 1022 7286922051386"
  by code_simp

section \<open>The reference solver\<close>

text \<open>
  C1. For all doubles \<open>a\<close>, \<open>b\<close>, \<open>c\<close>, \<open>quadratic_gold\<close> computes the discriminant
  \<open>d = b*b - 4*a*c\<close>; if \<open>d > 0\<close> or \<open>|d| < 1e-20\<close> it returns the pair
  \<open>((-b + sqrt |d|) / (2a), (-b - sqrt |d|) / (2a))\<close>, and otherwise it returns
  \<open>(NaN, NaN)\<close>, where \<open>NAN\<close> is a NaN.  Every operation is the \<open>double\<close> operation,
  rounded on its own.  In the second case the discriminant is negative or is itself a NaN
  (both comparisons are false for a NaN).
\<close>

theorem quadratic_gold_cases:
  "(let d = double_sub (double_mul b b) (double_mul (double_mul (double_literal 4 1) a) c)
    in (double_greater d (double_literal 0 1) \<or> double_less (fabs d) (double_literal 1 (10 ^ 20))
          \<longrightarrow> quadratic_gold a b c =
                (double_div (double_add (double_neg b) (double_sqrt (fabs d)))
                   (double_mul (double_literal 2 1) a),
                 double_div (double_sub (double_neg b) (double_sqrt (fabs d)))
                   (double_mul (double_literal 2 1) a))) \<and>
       (\<not> (double_greater d (double_literal 0 1) \<or> double_less (fabs d) (double_literal 1 (10 ^ 20)))
          \<longrightarrow> quadratic_gold a b c = (NAN, NAN) \<and> isnan NAN \<and>
              (is_nan d \<or> double_less d (double_literal 0 1))))"
proof -
  define d where "d = double_sub (double_mul b b) (double_mul (double_mul (double_literal 4 1) a) c)"
  let ?cond = "double_greater d (double_literal 0 1) \<or> double_less (fabs d) (double_literal 1 (10 ^ 20))"
  have pos: "?cond \<longrightarrow> quadratic_gold a b c =
                (double_div (double_add (double_neg b) (double_sqrt (fabs d)))
                   (double_mul (double_literal 2 1) a),
                 double_div (double_sub (double_neg b) (double_sqrt (fabs d)))
                   (double_mul (double_literal 2 1) a))"
    by (simp add: quadratic_gold_def Let_def d_def)
  have neg: "\<not> ?cond \<longrightarrow> quadratic_gold a b c = (NAN, NAN) \<and> isnan NAN"
    by (simp add: quadratic_gold_def Let_def d_def isnan_def is_nan_NAN)
  have m: "0 \<le> mantissa d"
    unfolding d_def by (rule mantissa_double_sub_nonneg)
  have sgn: "\<not> ?cond \<longrightarrow> is_nan d \<or> double_less d (double_literal 0 1)"
    using neither_positive_nor_tiny [OF m] by blast
  have "(?cond \<longrightarrow> quadratic_gold a b c =
                (double_div (double_add (double_neg b) (double_sqrt (fabs d)))
                   (double_mul (double_literal 2 1) a),
                 double_div (double_sub (double_neg b) (double_sqrt (fabs d)))
                   (double_mul (double_literal 2 1) a))) \<and>
        (\<not> ?cond \<longrightarrow> quadratic_gold a b c = (NAN, NAN) \<and> isnan NAN \<and>
              (is_nan d \<or> double_less d (double_literal 0 1)))"
    using pos neg sgn by blast
  then show ?thesis
    unfolding d_def Let_def .
qed

theorem quadratic_gold_cases_witness:
  "double_greater
     (double_sub (double_mul (double_bits True 1025 1238489897526886) (double_bits True 1025 1238489897526886))
        (double_mul (double_mul (double_literal 4 1) (double_bits False 1023 0))
           (double_bits False 1025 2251799813685248)))
     (double_literal 0 1) \<and>
   quadratic_gold (double_bits False 1023 0) (double_bits True 1025 1238489897526886)
       (double_bits False 1025 2251799813685248)
     = (double_bits False 1024 2834728509532854, double_bits False 1023 3788102198412332) \<and>
   \<not> (double_greater
        (double_sub (double_mul (double_bits False 1024 0) (double_bits False 1024 0))
           (double_mul (double_mul (double_literal 4 1) (double_bits False 1023 0))
              (double_bits False 1025 0)))
        (double_literal 0 1) \<or>
      double_less
        (fabs (double_sub (double_mul (double_bits False 1024 0) (double_bits False 1024 0))
           (double_mul (double_mul (double_literal 4 1) (double_bits False 1023 0))
              (double_bits False 1025 0))))
        (double_literal 1 (10 ^ 20))) \<and>
   quadratic_gold (double_bits False 1023 0) (double_bits False 1024 0) (double_bits False 1025 0)
     = (NAN, NAN)"
proof -
  let ?one = "double_bits False 1023 0"
  let ?two = "double_bits False 1024 0"
  let ?four = "double_bits False 1025 0"
  let ?six = "double_bits False 1025 2251799813685248"
  let ?b = "double_bits True 1025 1238489897526886"
  let ?d1 = "double_sub (double_mul ?b ?b) (double_mul (double_mul (double_literal 4 1) ?one) ?six)"
  let ?d2 = "double_sub (double_mul ?two ?two) (double_mul (double_mul (double_literal 4 1) ?one) ?four)"
  have c1: "double_greater ?d1 (double_literal 0 1)"
    by code_simp
  have c2: "\<not> (double_greater ?d2 (double_literal 0 1) \<or>
                double_less (fabs ?d2) (double_literal 1 (10 ^ 20)))"
    by code_simp
  have r1: "double_div (double_add (double_neg ?b) (double_sqrt (fabs ?d1)))
              (double_mul (double_literal 2 1) ?one) = double_bits False 1024 2834728509532854"
    by code_simp
  have r2: "double_div (double_sub (double_neg ?b) (double_sqrt (fabs ?d1)))
              (double_mul (double_literal 2 1) ?one) = double_bits False 1023 3788102198412332"
    by code_simp
  have g1: "quadratic_gold ?one ?b ?six
            = (double_bits False 1024 2834728509532854, double_bits False 1023 3788102198412332)"
    using quadratic_gold_cases [of ?b ?one ?six] c1 by (simp only: Let_def r1 r2) blast
  have g2: "quadratic_gold ?one ?two ?four = (NAN, NAN)"
    using quadratic_gold_cases [of ?two ?one ?four] c2 by (simp only: Let_def) blast
  show ?thesis
    using c1 c2 g1 g2 by (intro conjI)
qed

text \<open>
  C2. For \<open>a = 1\<close>, \<open>b = 2\<close>, \<open>c = 4\<close> the discriminant is \<open>-12\<close>: in the reference solver, in
  the simple kernel and in the specialized kernel.  The reference solver returns two NaNs,
  and both kernels return pairs whose components, cast to \<open>double\<close>, pass the driver's
  \<open>isnan\<close> test.
\<close>

theorem quadratic_no_real_roots:
  "double_sub (double_mul (double_literal 2 1) (double_literal 2 1))
     (double_mul (double_mul (double_literal 4 1) (double_literal 1 1)) (double_literal 4 1))
     = double_literal (- 12) 1 \<and>
   isnan (fst (quadratic_gold (double_literal 1 1) (double_literal 2 1) (double_literal 4 1))) \<and>
   isnan (snd (quadratic_gold (double_literal 1 1) (double_literal 2 1) (double_literal 4 1))) \<and>
   op_sub (op_mul (APDoubleType (double_to_float (double_literal 2 1)))
                  (APDoubleType (double_to_float (double_literal 2 1))))
          (op_mul (op_mul (APDoubleType (double_literal 4 1))
                          (APDoubleType (double_to_float (double_literal 1 1))))
                  (APDoubleType (double_to_float (double_literal 4 1))))
     = double_literal (- 12) 1 \<and>
   isnan (to_double (fst (TestSimpleQuadraticEqnSolver (double_to_float (double_literal 1 1))
            (double_to_float (double_literal 2 1)) (double_to_float (double_literal 4 1))))) \<and>
   isnan (to_double (snd (TestSimpleQuadraticEqnSolver (double_to_float (double_literal 1 1))
            (double_to_float (double_literal 2 1)) (double_to_float (double_literal 4 1))))) \<and>
   sub_fp binary64 kAccuracyHigh kSubnormalOn
     (mul_fp binary64 kAccuracyLow kSubnormalOff
        (APFloatType (double_to_float (double_literal 2 1)))
        (APFloatType (double_to_float (double_literal 2 1))))
     (mul_fp binary64 kAccuracyLow kSubnormalOff
        (mul_fp binary64 kAccuracyLow kSubnormalOff (APFloatType (float_literal 4 1))
           (APFloatType (double_to_float (double_literal 1 1))))
        (APFloatType (double_to_float (double_literal 4 1))))
     = double_literal (- 12) 1 \<and>
   isnan (to_double (fst (TestSpecializedQuadraticEqnSolver (double_to_float (double_literal 1 1))
            (double_to_float (double_literal 2 1)) (double_to_float (double_literal 4 1))))) \<and>
   isnan (to_double (snd (TestSpecializedQuadraticEqnSolver (double_to_float (double_literal 1 1))
            (double_to_float (double_literal 2 1)) (double_to_float (double_literal 4 1)))))"
proof -
  have n: "isnan (to_double (nan binary64 RoundNearestEven))"
    by (simp add: isnan_def is_nan_to_double is_nan_nan)
  have d0: "double_sub (double_mul (double_literal 2 1) (double_literal 2 1))
     (double_mul (double_mul (double_literal 4 1) (double_literal 1 1)) (double_literal 4 1))
     = double_literal (- 12) 1"
    by code_simp
  have d1: "op_sub (op_mul (APDoubleType (double_to_float (double_literal 2 1)))
                  (APDoubleType (double_to_float (double_literal 2 1))))
          (op_mul (op_mul (APDoubleType (double_literal 4 1))
                          (APDoubleType (double_to_float (double_literal 1 1))))
                  (APDoubleType (double_to_float (double_literal 4 1))))
     = double_literal (- 12) 1"
    by code_simp
  have d2: "sub_fp binary64 kAccuracyHigh kSubnormalOn
     (mul_fp binary64 kAccuracyLow kSubnormalOff
        (APFloatType (double_to_float (double_literal 2 1)))
        (APFloatType (double_to_float (double_literal 2 1))))
     (mul_fp binary64 kAccuracyLow kSubnormalOff
        (mul_fp binary64 kAccuracyLow kSubnormalOff (APFloatType (float_literal 4 1))
           (APFloatType (double_to_float (double_literal 1 1))))
        (APFloatType (double_to_float (double_literal 4 1))))
     = double_literal (- 12) 1"
    by code_simp
  have g: "isnan (fst (quadratic_gold (double_literal 1 1) (double_literal 2 1) (double_literal 4 1)))"
    "isnan (snd (quadratic_gold (double_literal 1 1) (double_literal 2 1) (double_literal 4 1)))"
    by (simp_all add: quadratic_gold_run_124 isnan_def is_nan_NAN)
  have s: "isnan (to_double (fst (TestSimpleQuadraticEqnSolver (double_to_float (double_literal 1 1))
            (double_to_float (double_literal 2 1)) (double_to_float (double_literal 4 1)))))"
    "isnan (to_double (snd (TestSimpleQuadraticEqnSolver (double_to_float (double_literal 1 1))
            (double_to_float (double_literal 2 1)) (double_to_float (double_literal 4 1)))))"
    using n by (simp_all only: float_argument_bits simple_solver_run_124 fst_conv snd_conv)
  have p: "isnan (to_double (fst (TestSpecializedQuadraticEqnSolver (double_to_float (double_literal 1 1))
            (double_to_float (double_literal 2 1)) (double_to_float (double_literal 4 1)))))"
    "isnan (to_double (snd (TestSpecializedQuadraticEqnSolver (double_to_float (double_literal 1 1))
            (double_to_float (double_literal 2 1)) (double_to_float (double_literal 4 1)))))"
    using n by (simp_all only: float_argument_bits specialized_solver_run_124 fst_conv snd_conv)
  show ?thesis
    using d0 d1 d2 g s p by (intro conjI)
qed

section \<open>The quadratic test harness\<close>

text \<open>
  C3, as stated: for \<open>a = 1\<close>, \<open>b = -5.1\<close>, \<open>c = 6\<close> the roots of the solver are approximately
  \<open>3.262...\<close> and \<open>1.837...\<close>.  They are not: neither the simple kernel, nor the specialized
  kernel, nor the reference solver returns a first root in \<open>[3.262, 3.263)\<close> together with
  a second root in \<open>[1.837, 1.838)\<close>.
\<close>

theorem quadratic_roots_digits_counterexample:
  "\<not> (\<not> double_less (to_double (fst (TestSimpleQuadraticEqnSolver (double_to_float (double_literal 1 1))
            (double_to_float (double_literal (- 51) 10)) (double_to_float (double_literal 6 1)))))
          (double_literal 3262 1000) \<and>
      double_less (to_double (fst (TestSimpleQuadraticEqnSolver (double_to_float (double_literal 1 1))
            (double_to_float (double_literal (- 51) 10)) (double_to_float (double_literal 6 1)))))
          (double_literal 3263 1000) \<and>
      \<not> double_less (to_double (snd (TestSimpleQuadraticEqnSolver (double_to_float (double_literal 1 1))
            (double_to_float (double_literal (- 51) 10)) (double_to_float (double_literal 6 1)))))
          (double_literal 1837 1000) \<and>
      double_less (to_double (snd (TestSimpleQuadraticEqnSolver (double_to_float (double_literal 1 1))
            (double_to_float (double_literal (- 51) 10)) (double_to_float (double_literal 6 1)))))
          (double_literal 1838 1000)) \<and>
   \<not> (\<not> double_less (to_double (fst (TestSpecializedQuadraticEqnSolver (double_to_float (double_literal 1 1))
            (double_to_float (double_literal (- 51) 10)) (double_to_float (double_literal 6 1)))))
          (double_literal 3262 1000) \<and>
      double_less (to_double (snd (TestSpecializedQuadraticEqnSolver (double_to_float (double_literal 1 1))
            (double_to_float (double_literal (- 51) 10)) (double_to_float (double_literal 6 1)))))
          (double_literal 1838 1000)) \<and>
   \<not> (\<not> double_less (fst (quadratic_gold (double_literal 1 1) (double_literal (- 51) 10) (double_literal 6 1)))
          (double_literal 3262 1000) \<and>
      double_less (snd (quadratic_gold (double_literal 1 1) (double_literal (- 51) 10) (double_literal 6 1)))
          (double_literal 1838 1000))"
proof -
  have a: "double_less (to_double (double_bits False 1024 2834728015905494)) (double_literal 3262 1000)"
    by code_simp
  have b: "double_less (double_bits False 1024 2834728509532854) (double_literal 3262 1000)"
    by code_simp
  show ?thesis
    using a b
    by (simp only: float_argument_bits simple_solver_run_51 specialized_solver_run_51
        quadratic_gold_run_51 fst_conv snd_conv) blast
qed

text \<open>
  C3, amended: for \<open>a = 1\<close>, \<open>b = -5.1\<close>, \<open>c = 6\<close> the two roots are approximately \<open>3.2588...\<close>
  and \<open>1.8411...\<close>: the first root of the reference solver and of both kernels lies between
  3.2588 and 3.2589, the second between 1.8411 and 1.8412, and each root of each kernel
  differs from the root of \<open>quadratic_gold\<close> by less than \<open>1e-6\<close>, so that the loop of the
  driver leaves \<open>passed\<close> set for this test vector.
\<close>

theorem quadratic_roots_51:
  "double_less (double_literal 32588 10000)
     (fst (quadratic_gold (double_literal 1 1) (double_literal (- 51) 10) (double_literal 6 1))) \<and>
   double_less (fst (quadratic_gold (double_literal 1 1) (double_literal (- 51) 10) (double_literal 6 1)))
     (double_literal 32589 10000) \<and>
   double_less (double_literal 18411 10000)
     (snd (quadratic_gold (double_literal 1 1) (double_literal (- 51) 10) (double_literal 6 1))) \<and>
   double_less (snd (quadratic_gold (double_literal 1 1) (double_literal (- 51) 10) (double_literal 6 1)))
     (double_literal 18412 10000) \<and>
   TestSpecializedQuadraticEqnSolver (double_to_float (double_literal 1 1))
       (double_to_float (double_literal (- 51) 10)) (double_to_float (double_literal 6 1))
     = TestSimpleQuadraticEqnSolver (double_to_float (double_literal 1 1))
         (double_to_float (double_literal (- 51) 10)) (double_to_float (double_literal 6 1)) \<and>
   double_less (double_literal 32588 10000)
     (to_double (fst (TestSimpleQuadraticEqnSolver (double_to_float (double_literal 1 1))
        (double_to_float (double_literal (- 51) 10)) (double_to_float (double_literal 6 1))))) \<and>
   double_less
     (to_double (fst (TestSimpleQuadraticEqnSolver (double_to_float (double_literal 1 1))
        (double_to_float (double_literal (- 51) 10)) (double_to_float (double_literal 6 1)))))
     (double_literal 32589 10000) \<and>
   double_less (double_literal 18411 10000)
     (to_double (snd (TestSimpleQuadraticEqnSolver (double_to_float (double_literal 1 1))
        (double_to_float (double_literal (- 51) 10)) (double_to_float (double_literal 6 1))))) \<and>
   double_less
     (to_double (snd (TestSimpleQuadraticEqnSolver (double_to_float (double_literal 1 1))
        (double_to_float (double_literal (- 51) 10)) (double_to_float (double_literal 6 1)))))
     (double_literal 18412 10000) \<and>
   double_less
     (fabs (double_sub
        (to_double (fst (TestSimpleQuadraticEqnSolver (double_to_float (double_literal 1 1))
           (double_to_float (double_literal (- 51) 10)) (double_to_float (double_literal 6 1)))))
        (fst (quadratic_gold (double_literal 1 1) (double_literal (- 51) 10) (double_literal 6 1)))))
     kQuadraticEqnEpsilon \<and>
   double_less
     (fabs (double_sub
        (to_double (snd (TestSimpleQuadraticEqnSolver (double_to_float (double_literal 1 1))
           (double_to_float (double_literal (- 51) 10)) (double_to_float (double_literal 6 1)))))
        (snd (quadratic_gold (double_literal 1 1) (double_literal (- 51) 10) (double_literal 6 1)))))
     kQuadraticEqnEpsilon \<and>
   check_testvec TestSimpleQuadraticEqnSolver True
     (double_literal 1 1, double_literal (- 51) 10, double_literal 6 1) \<and>
   check_testvec TestSpecializedQuadraticEqnSolver True
     (double_literal 1 1, double_literal (- 51) 10, double_literal 6 1)"
proof -
  let ?g1 = "double_bits False 1024 2834728509532854"
  let ?g2 = "double_bits False 1023 3788102198412332"
  let ?k1 = "double_bits False 1024 2834728015905494"
  let ?k2 = "double_bits False 1023 3788102756170323"
  have g: "double_less (double_literal 32588 10000) ?g1" "double_less ?g1 (double_literal 32589 10000)"
    "double_less (double_literal 18411 10000) ?g2" "double_less ?g2 (double_literal 18412 10000)"
    by code_simp+
  have k: "double_less (double_literal 32588 10000) (to_double ?k1)"
    "double_less (to_double ?k1) (double_literal 32589 10000)"
    "double_less (double_literal 18411 10000) (to_double ?k2)"
    "double_less (to_double ?k2) (double_literal 18412 10000)"
    by code_simp+
  have d: "double_less (fabs (double_sub (to_double ?k1) ?g1)) kQuadraticEqnEpsilon"
    "double_less (fabs (double_sub (to_double ?k2) ?g2)) kQuadraticEqnEpsilon"
    by code_simp+
  have e: "\<not> double_greater (fabs (double_sub (to_double ?k1) ?g1)) kQuadraticEqnEpsilon"
    "\<not> double_greater (fabs (double_sub (to_double ?k2) ?g2)) kQuadraticEqnEpsilon"
    by code_simp+
  have c1: "check_testvec TestSimpleQuadraticEqnSolver True
     (double_literal 1 1, double_literal (- 51) 10, double_literal 6 1)"
    using e
    by (simp only: check_testvec.simps Let_def float_argument_bits simple_solver_run_51
        quadratic_gold_run_51 fst_conv snd_conv) simp
  have c2: "check_testvec TestSpecializedQuadraticEqnSolver True
     (double_literal 1 1, double_literal (- 51) 10, double_literal 6 1)"
    using e
    by (simp only: check_testvec.simps Let_def float_argument_bits specialized_solver_run_51
        quadratic_gold_run_51 fst_conv snd_conv) simp
  show ?thesis
    using g k d c1 c2
    by (simp only: float_argument_bits simple_solver_run_51 specialized_solver_run_51
        quadratic_gold_run_51 fst_conv snd_conv)
qed

text \<open>
  C10. In the loop of the quadratic test harness, a test vector for which both computed
  roots and both golden roots are NaN is never marked as failing: both differences are NaN,
  the comparison \<open>difference > 1e-6\<close> is false for a NaN, and \<open>passed\<close> keeps the value it
  had.
\<close>

theorem check_testvec_nan:
  assumes "is_nan (fst (func (double_to_float a) (double_to_float b) (double_to_float c)))"
    and "is_nan (snd (func (double_to_float a) (double_to_float b) (double_to_float c)))"
    and "is_nan (fst (quadratic_gold a b c))"
    and "is_nan (snd (quadratic_gold a b c))"
  shows "is_nan (fabs (double_sub
            (to_double (fst (func (double_to_float a) (double_to_float b) (double_to_float c))))
            (fst (quadratic_gold a b c)))) \<and>
         is_nan (fabs (double_sub
            (to_double (snd (func (double_to_float a) (double_to_float b) (double_to_float c))))
            (snd (quadratic_gold a b c)))) \<and>
         check_testvec func passed (a, b, c) = passed"
proof -
  let ?out = "func (double_to_float a) (double_to_float b) (double_to_float c)"
  have d1: "is_nan (fabs (double_sub (to_double (fst ?out)) (fst (quadratic_gold a b c))))"
    using assms(3) by (intro is_nan_fabs is_nan_double_sub) simp
  have d2: "is_nan (fabs (double_sub (to_double (snd ?out)) (snd (quadratic_gold a b c))))"
    using assms(4) by (intro is_nan_fabs is_nan_double_sub) simp
  have "check_testvec func passed (a, b, c) = passed"
    using not_greater_nan[OF d1] not_greater_nan[OF d2] by (simp add: Let_def)
  with d1 d2 show ?thesis by simp
qed

theorem check_testvec_nan_witness:
  "is_nan (fst (TestSimpleQuadraticEqnSolver (double_to_float (double_literal 1 1))
      (double_to_float (double_literal 2 1)) (double_to_float (double_literal 4 1)))) \<and>
   is_nan (snd (TestSimpleQuadraticEqnSolver (double_to_float (double_literal 1 1))
      (double_to_float (double_literal 2 1)) (double_to_float (double_literal 4 1)))) \<and>
   is_nan (fst (quadratic_gold (double_literal 1 1) (double_literal 2 1) (double_literal 4 1))) \<and>
   is_nan (snd (quadratic_gold (double_literal 1 1) (double_literal 2 1) (double_literal 4 1))) \<and>
   check_testvec TestSimpleQuadraticEqnSolver True
     (double_literal 1 1, double_literal 2 1, double_literal 4 1) = True \<and>
   check_testvec TestSimpleQuadraticEqnSolver False
     (double_literal 1 1, double_literal 2 1, double_literal 4 1) = False"
proof -
  have h1: "is_nan (fst (TestSimpleQuadraticEqnSolver (double_to_float (double_literal 1 1))
      (double_to_float (double_literal 2 1)) (double_to_float (double_literal 4 1))))"
    and h2: "is_nan (snd (TestSimpleQuadraticEqnSolver (double_to_float (double_literal 1 1))
      (double_to_float (double_literal 2 1)) (double_to_float (double_literal 4 1))))"
    by (simp_all add: float_argument_bits simple_solver_run_124 is_nan_nan)
  have h3: "is_nan (fst (quadratic_gold (double_literal 1 1) (double_literal 2 1) (double_literal 4 1)))"
    and h4: "is_nan (snd (quadratic_gold (double_literal 1 1) (double_literal 2 1) (double_literal 4 1)))"
    by (simp_all add: quadratic_gold_run_124 is_nan_NAN)
  show ?thesis
    using h1 h2 h3 h4
      check_testvec_nan [of TestSimpleQuadraticEqnSolver "double_literal 1 1" "double_literal 2 1"
        "double_literal 4 1" True]
      check_testvec_nan [of TestSimpleQuadraticEqnSolver "double_literal 1 1" "double_literal 2 1"
        "double_literal 4 1" False]
    by blast
qed

section \<open>The sine approximation\<close>

text \<open>
  C4. The sine kernel evaluates the 10-term alternating Taylor polynomial
  \<open>x - x^3/3! + ... - x^19/19!\<close> (shown for the kernel run in exact rational arithmetic).
  At the input \<open>M_PI_4\<close> the native \<open>double\<close> run and the run in \<open>ap_float<11,44>\<close> with
  RoundTowardZero both give a result whose absolute difference from \<open>M_SQRT1_2\<close>, the
  \<open>double\<close> nearest to the square root of one half, is below \<open>1e-13\<close>, so that
  \<open>TestSineApproximation\<close> passes.
\<close>

theorem sine_approximation:
  "SineApproximationKernel rat_type x
     = (\<Sum>j<10. (- 1) ^ j * x ^ (2 * j + 1) / of_nat (fact (2 * j + 1))) \<and>
   kSineApproximateTermsCount = 10 \<and>
   double_sqrt (double_literal 1 2) = M_SQRT1_2 \<and>
   double_less sine_difference_a kSineApproximationEpsilon \<and>
   double_less sine_difference_b kSineApproximationEpsilon \<and>
   TestSineApproximation"
proof -
  have t: "SineApproximationKernel rat_type x
     = (\<Sum>j<10. (- 1) ^ j * x ^ (2 * j + 1) / of_nat (fact (2 * j + 1)))"
    using sine_kernel_taylor [of x] by (simp only: taylor_sum_def)
  have r: "double_sqrt (double_literal 1 2) = M_SQRT1_2"
    by code_simp
  have a: "double_less sine_difference_a kSineApproximationEpsilon"
    unfolding sine_difference_a_def Let_def sine_double_run by code_simp
  have b: "double_less sine_difference_b kSineApproximationEpsilon"
    unfolding sine_difference_b_def Let_def sine_ap_float_run by code_simp
  have p: "TestSineApproximation"
    using a b by (simp add: TestSineApproximation_def)
  show ?thesis
    using t r a b p by (simp only: kSineApproximateTermsCount_def simp_thms)
qed

section \<open>Conversions and arithmetic of the configurable floats\<close>

text \<open>
  C5. For every finite \<open>double\<close> \<open>x\<close>, converting \<open>x\<close> into the layout \<open>(11, 52)\<close> with
  RoundNearestEven by \<open>from_native\<close> and back by \<open>to_double\<close> gives exactly \<open>x\<close>.
\<close>

theorem native_double_round_trip:
  assumes "is_double x" and "is_finite x"
  shows "to_double (from_native x binary64 RoundNearestEven) = x"
proof -
  have wf: "well_formed x" and l: "layout x = binary64" and m: "rmode x = RoundNearestEven"
    using assms(1) by (simp_all add: is_double_def)
  have "round_fp (value_of x) binary64 RoundNearestEven = x"
    using round_fp_value_of [OF wf assms(2), of RoundNearestEven] l m by simp
  then show ?thesis
    by (simp add: to_double_def from_native_def)
qed

theorem native_double_round_trip_witness:
  "is_double (double_bits True 1025 1238489897526886) \<and>
   is_finite (double_bits True 1025 1238489897526886) \<and>
   to_double (from_native (double_bits True 1025 1238489897526886) binary64 RoundNearestEven)
     = double_bits True 1025 1238489897526886 \<and>
   is_double (double_bits False 0 1) \<and>
   is_finite (double_bits False 0 1) \<and>
   to_double (from_native (double_bits False 0 1) binary64 RoundNearestEven) = double_bits False 0 1"
proof -
  have h1: "is_double (double_bits True 1025 1238489897526886)" by code_simp
  have h2: "is_finite (double_bits True 1025 1238489897526886)" by code_simp
  have h3: "is_double (double_bits False 0 1)" by code_simp
  have h4: "is_finite (double_bits False 0 1)" by code_simp
  show ?thesis
    using h1 h2 h3 h4 native_double_round_trip [OF h1 h2] native_double_round_trip [OF h3 h4]
    by (intro conjI)
qed

text \<open>
  C6. For each of the operations add, sub, mul, div and sqrt, in every result layout,
  accuracy tier and subnormal mode: if an operand is a NaN then the result is a NaN.  In
  addition \<open>\<infinity> - \<infinity>\<close> (and the sum of opposite infinities), \<open>0 \<times> \<infinity>\<close>, \<open>0 / 0\<close> and
  \<open>\<infinity> / \<infinity>\<close> are NaN; for the cases with a zero the layouts involved have to be valid, so
  that exponent field zero is not the all-ones field.
\<close>

theorem nan_propagation:
  "(is_nan x \<or> is_nan y \<longrightarrow>
      is_nan (add_fp L t sm x y) \<and> is_nan (sub_fp L t sm x y) \<and>
      is_nan (mul_fp L t sm x y) \<and> is_nan (div_fp L t sm x y)) \<and>
   (is_nan x \<longrightarrow> is_nan (sqrt_fp t sm x)) \<and>
   (is_infinite x \<and> is_infinite y \<and> sign_bit x = sign_bit y \<longrightarrow> is_nan (sub_fp L t sm x y)) \<and>
   (is_infinite x \<and> is_infinite y \<and> sign_bit x \<noteq> sign_bit y \<longrightarrow> is_nan (add_fp L t sm x y)) \<and>
   (valid_layout (layout x) \<and> is_zero x \<and> is_infinite y \<longrightarrow>
      is_nan (mul_fp L t sm x y) \<and> is_nan (mul_fp L t sm y x)) \<and>
   (valid_layout L \<and> valid_layout (layout x) \<and> valid_layout (layout y) \<and> is_zero x \<and> is_zero y \<longrightarrow>
      is_nan (div_fp L t sm x y)) \<and>
   (is_infinite x \<and> is_infinite y \<longrightarrow> is_nan (div_fp L t sm x y))"
proof (intro conjI impI)
  assume "is_nan x \<or> is_nan y"
  then show "is_nan (add_fp L t sm x y)" "is_nan (sub_fp L t sm x y)"
    "is_nan (mul_fp L t sm x y)" "is_nan (div_fp L t sm x y)"
    by (rule add_fp_nan sub_fp_nan mul_fp_nan div_fp_nan)+
next
  assume "is_nan x"
  then show "is_nan (sqrt_fp t sm x)" by (rule sqrt_fp_nan)
next
  assume "is_infinite x \<and> is_infinite y \<and> sign_bit x = sign_bit y"
  then show "is_nan (sub_fp L t sm x y)" by (simp add: sub_fp_inf_inf)
next
  assume "is_infinite x \<and> is_infinite y \<and> sign_bit x \<noteq> sign_bit y"
  then show "is_nan (add_fp L t sm x y)" by (simp add: add_fp_inf_inf)
next
  assume a: "valid_layout (layout x) \<and> is_zero x \<and> is_infinite y"
  then show "is_nan (mul_fp L t sm x y)" by (simp add: mul_fp_zero_inf)
  from a show "is_nan (mul_fp L t sm y x)" by (simp add: mul_fp_zero_inf)
next
  assume "valid_layout L \<and> valid_layout (layout x) \<and> valid_layout (layout y) \<and> is_zero x \<and> is_zero y"
  then show "is_nan (div_fp L t sm x y)" by (simp add: div_fp_zero_zero)
next
  assume "is_infinite x \<and> is_infinite y"
  then show "is_nan (div_fp L t sm x y)" by (simp add: div_fp_inf_inf)
qed

theorem nan_propagation_witness:
  "is_nan NAN \<and>
   is_nan (add_fp binary64 High Off NAN (double_bits False 1023 0)) \<and>
   is_nan (sub_fp binary64 High Off NAN (double_bits False 1023 0)) \<and>
   is_nan (mul_fp binary64 High Off NAN (double_bits False 1023 0)) \<and>
   is_nan (div_fp binary64 High Off NAN (double_bits False 1023 0)) \<and>
   is_nan (sqrt_fp High Off NAN) \<and>
   is_infinite (double_bits False 2047 0) \<and>
   is_nan (sub_fp binary64 High Off (double_bits False 2047 0) (double_bits False 2047 0)) \<and>
   is_nan (add_fp binary64 High Off (double_bits False 2047 0) (double_bits True 2047 0)) \<and>
   is_nan (div_fp binary64 High Off (double_bits False 2047 0) (double_bits False 2047 0)) \<and>
   valid_layout binary64 \<and> is_zero (double_bits False 0 0) \<and>
   is_nan (mul_fp binary64 High Off (double_bits False 0 0) (double_bits False 2047 0)) \<and>
   is_nan (mul_fp binary64 High Off (double_bits False 2047 0) (double_bits False 0 0)) \<and>
   is_nan (div_fp binary64 High Off (double_bits False 0 0) (double_bits False 0 0))"
proof -
  let ?inf = "double_bits False 2047 0"
  let ?ninf = "double_bits True 2047 0"
  let ?zero = "double_bits False 0 0"
  have n: "is_nan NAN" by (rule is_nan_NAN)
  have i: "is_infinite ?inf" "is_infinite ?ninf" by code_simp+
  have s: "sign_bit ?inf = sign_bit ?inf" "sign_bit ?inf \<noteq> sign_bit ?ninf"
    by (simp_all add: double_bits_def make_float_def)
  have v: "valid_layout binary64" "valid_layout (layout ?zero)" by code_simp+
  have z: "is_zero ?zero" by code_simp
  have a: "is_nan (add_fp binary64 High Off NAN (double_bits False 1023 0)) \<and>
      is_nan (sub_fp binary64 High Off NAN (double_bits False 1023 0)) \<and>
      is_nan (mul_fp binary64 High Off NAN (double_bits False 1023 0)) \<and>
      is_nan (div_fp binary64 High Off NAN (double_bits False 1023 0))"
    and q: "is_nan (sqrt_fp High Off NAN)"
    using nan_propagation [of NAN "double_bits False 1023 0" binary64 High Off] n by blast+
  have b: "is_nan (sub_fp binary64 High Off ?inf ?inf)"
    and c: "is_nan (div_fp binary64 High Off ?inf ?inf)"
    using nan_propagation [of ?inf ?inf binary64 High Off] i(1) s(1) by blast+
  have d: "is_nan (add_fp binary64 High Off ?inf ?ninf)"
    using nan_propagation [of ?inf ?ninf binary64 High Off] i s(2) by blast
  have e: "is_nan (mul_fp binary64 High Off ?zero ?inf) \<and> is_nan (mul_fp binary64 High Off ?inf ?zero)"
    using nan_propagation [of ?zero ?inf binary64 High Off] i(1) v(2) z by blast
  have f: "is_nan (div_fp binary64 High Off ?zero ?zero)"
    using nan_propagation [of ?zero ?zero binary64 High Off] v z by blast
  show ?thesis
    using n a q i(1) b d c v(1) z e f by (simp only: simp_thms)
qed

text \<open>
  C7. In a mixed-layout addition, subtraction or division the operand whose layout has the
  larger \<open>E\<close> (the larger \<open>M\<close> when the \<open>E\<close> are equal) is dominant and is used as it is; the
  other operand is first converted to the dominant layout, with RoundNearestEven, unless
  its own rounding mode is RoundTowardZero, in which case RoundTowardZero is used.
\<close>

theorem mixed_layout_promotion:
  "(ebits (layout x) < ebits (layout y) \<or>
    (ebits (layout x) = ebits (layout y) \<and> mbits (layout x) < mbits (layout y)) \<longrightarrow>
      dominant (layout x) (layout y) = layout y \<and>
      dominant (layout y) (layout x) = layout y \<and>
      op_add x y = add_fp (layout y) High Off
        (convert x (layout y)
           (if rmode x = RoundTowardZero then RoundTowardZero else RoundNearestEven)) y \<and>
      op_sub x y = sub_fp (layout y) High Off
        (convert x (layout y)
           (if rmode x = RoundTowardZero then RoundTowardZero else RoundNearestEven)) y \<and>
      op_div x y = div_fp (layout y) High Off
        (convert x (layout y)
           (if rmode x = RoundTowardZero then RoundTowardZero else RoundNearestEven)) y \<and>
      op_add y x = add_fp (layout y) High Off y
        (convert x (layout y)
           (if rmode x = RoundTowardZero then RoundTowardZero else RoundNearestEven)) \<and>
      op_sub y x = sub_fp (layout y) High Off y
        (convert x (layout y)
           (if rmode x = RoundTowardZero then RoundTowardZero else RoundNearestEven)) \<and>
      op_div y x = div_fp (layout y) High Off y
        (convert x (layout y)
           (if rmode x = RoundTowardZero then RoundTowardZero else RoundNearestEven)))"
proof (intro impI)
  assume lt: "ebits (layout x) < ebits (layout y) \<or>
    (ebits (layout x) = ebits (layout y) \<and> mbits (layout x) < mbits (layout y))"
  let ?c = "convert x (layout y)
           (if rmode x = RoundTowardZero then RoundTowardZero else RoundNearestEven)"
  have ne: "layout x \<noteq> layout y" using lt by auto
  have d1: "dominant (layout x) (layout y) = layout y"
    using lt by (auto simp: dominant_def)
  have d2: "dominant (layout y) (layout x) = layout y"
    using lt by (auto simp: dominant_def)
  have px: "promote x (layout y) = ?c"
    using ne by (simp add: promote_def promotion_mode_def)
  have pc: "promote ?c (layout y) = ?c"
    by (simp add: promote_def convert_def layout_round_fp)
  have py: "promote y (layout y) = y"
    by (simp add: promote_def)
  show "dominant (layout x) (layout y) = layout y \<and>
      dominant (layout y) (layout x) = layout y \<and>
      op_add x y = add_fp (layout y) High Off ?c y \<and>
      op_sub x y = sub_fp (layout y) High Off ?c y \<and>
      op_div x y = div_fp (layout y) High Off ?c y \<and>
      op_add y x = add_fp (layout y) High Off y ?c \<and>
      op_sub y x = sub_fp (layout y) High Off y ?c \<and>
      op_div y x = div_fp (layout y) High Off y ?c"
    by (simp only: d1 d2 op_add_def op_sub_def op_div_def add_fp_def sub_fp_def div_fp_def px pc py
        simp_thms)
qed

text \<open>The witness is kernel B on the input \<open>10.1f\<close> of the driver: in
  \<open>x * num + y * num + z\<close> the product \<open>x * num\<close> has the plain \<open>float\<close> layout type and
  is promoted with RoundNearestEven, and \<open>z\<close>, of the type with RoundTowardZero, is
  promoted with RoundTowardZero.\<close>

theorem mixed_layout_promotion_witness:
  "ebits (layout (op_mul (APFloatTypeB (float_literal 31 10)) (APFloatTypeB (float_literal 101 10))))
     < ebits (layout (op_mul (APDoubleTypeB (double_literal 41 10)) (APFloatTypeB (float_literal 101 10)))) \<and>
   ebits (layout (APFloatTypeB (double_literal 41 10)))
     < ebits (layout (op_add
         (op_mul (APFloatTypeB (float_literal 31 10)) (APFloatTypeB (float_literal 101 10)))
         (op_mul (APDoubleTypeB (double_literal 41 10)) (APFloatTypeB (float_literal 101 10))))) \<and>
   TestConversionKernelB (APFloatTypeB (float_literal 101 10))
     = APDoubleTypeB
         (add_fp binary64 High Off
            (add_fp binary64 High Off
               (convert (op_mul (APFloatTypeB (float_literal 31 10)) (APFloatTypeB (float_literal 101 10)))
                  binary64 RoundNearestEven)
               (op_mul (APDoubleTypeB (double_literal 41 10)) (APFloatTypeB (float_literal 101 10))))
            (convert (APFloatTypeB (double_literal 41 10)) binary64 RoundTowardZero))"
proof -
  let ?num = "APFloatTypeB (float_literal 101 10)"
  let ?x = "APFloatTypeB (float_literal 31 10)"
  let ?y = "APDoubleTypeB (double_literal 41 10)"
  let ?z = "APFloatTypeB (double_literal 41 10)"
  have e: "ebits binary32 < ebits binary64"
    by (simp add: binary32_def binary64_def)
  have d: "dominant binary32 binary32 = binary32" "dominant binary64 binary32 = binary64"
    by (simp_all add: dominant_def binary32_def binary64_def)
  have lx: "layout ?x = binary32" and ln: "layout ?num = binary32" and lz: "layout ?z = binary32"
    and ly: "layout ?y = binary64"
    by (simp_all add: APFloatTypeB_def APDoubleTypeB_def from_native_def layout_round_fp)
  have rz: "rmode ?z = RoundTowardZero"
    by (simp add: APFloatTypeB_def from_native_def rmode_round_fp kRoundingModeRZERO_def)
  have lxn: "layout (op_mul ?x ?num) = binary32"
    by (simp add: op_mul_def Let_def mul_fp_def layout_finish lx ln d)
  have rxn: "rmode (op_mul ?x ?num) = RoundNearestEven"
    by (simp add: op_mul_def Let_def mul_fp_def rmode_finish)
  have lyn: "layout (op_mul ?y ?num) = binary64"
    by (simp add: op_mul_def Let_def mul_fp_def layout_finish ly ln d)
  have s1: "op_add (op_mul ?x ?num) (op_mul ?y ?num)
            = add_fp binary64 High Off (convert (op_mul ?x ?num) binary64 RoundNearestEven)
                (op_mul ?y ?num)"
    using mixed_layout_promotion [of "op_mul ?x ?num" "op_mul ?y ?num"] e
    by (simp add: lxn lyn rxn)
  have ls: "layout (op_add (op_mul ?x ?num) (op_mul ?y ?num)) = binary64"
    by (simp add: s1 add_fp_def layout_finish)
  have s2: "op_add (op_add (op_mul ?x ?num) (op_mul ?y ?num)) ?z
            = add_fp binary64 High Off (op_add (op_mul ?x ?num) (op_mul ?y ?num))
                (convert ?z binary64 RoundTowardZero)"
    using mixed_layout_promotion [of ?z "op_add (op_mul ?x ?num) (op_mul ?y ?num)"] e
    by (simp add: ls lz rz)
  have k: "TestConversionKernelB ?num
     = APDoubleTypeB
         (add_fp binary64 High Off
            (add_fp binary64 High Off (convert (op_mul ?x ?num) binary64 RoundNearestEven)
               (op_mul ?y ?num))
            (convert ?z binary64 RoundTowardZero))"
    unfolding TestConversionKernelB_def Let_def
    by (subst s2, subst s1) (rule refl)
  show ?thesis
    using e k by (simp only: lxn lyn lz ls simp_thms)
qed

text \<open>
  C8. Multiplication does not round its operands to a common layout first: \<open>mul\<close> takes
  operands of any two layouts, multiplies their values as they are and rounds the product
  once, into the output layout that is specified.  Addition, subtraction and division give
  the same result as on the operands converted to the working layout.  The difference
  shows on the \<open>double\<close> \<open>1 + 2^-24\<close>, squared into the \<open>float\<close> layout: multiplying the
  operand as it is gives \<open>1 + 2^-23\<close>, converting it first gives \<open>1\<close>.
\<close>

theorem mul_leaves_operands_intact:
  "mul_fp L t sm x y = finish L t sm (exact_mul (value_of x) (value_of y)) \<and>
   layout (mul_fp L t sm x y) = L \<and>
   add_fp L t sm x y = add_fp L t sm (promote x L) (promote y L) \<and>
   sub_fp L t sm x y = sub_fp L t sm (promote x L) (promote y L) \<and>
   div_fp L t sm x y = div_fp L t sm (promote x L) (promote y L) \<and>
   mul_fp binary32 High Off (double_bits False 1023 268435456) (double_bits False 1023 268435456)
     = float_bits False 127 1 \<and>
   mul_fp binary32 High Off (promote (double_bits False 1023 268435456) binary32)
       (promote (double_bits False 1023 268435456) binary32)
     = float_bits False 127 0"
proof -
  have e1: "mul_fp binary32 High Off (double_bits False 1023 268435456) (double_bits False 1023 268435456)
     = float_bits False 127 1"
    by code_simp
  have e2: "mul_fp binary32 High Off (promote (double_bits False 1023 268435456) binary32)
       (promote (double_bits False 1023 268435456) binary32)
     = float_bits False 127 0"
    by code_simp
  show ?thesis
    using e1 e2
    by (simp add: mul_fp_def add_fp_def sub_fp_def div_fp_def promote_idem layout_finish)
qed

section \<open>Properties of the allocation helper\<close>

text \<open>
  C9. \<open>alloc_annotated\<close> never returns an annotated object that wraps the null pointer: for
  every runtime, property list, count, queue and allocation kind, either the underlying
  aligned allocation gave a non-null pointer and that pointer is returned wrapped, or the
  allocation gave null and the program terminates with the error message; a failed
  allocation never comes back as a return value.
\<close>

theorem alloc_annotated_never_null:
  "(\<exists>p. alloc_annotated rt T count syclQueue usmKind = Inr (Annotated p) \<and> p \<noteq> nullptr \<and>
        p = aligned_alloc_annotated rt (remove_align_from rt T) (GetAlignFromPropList rt T)
              count syclQueue usmKind)
   \<or> (alloc_annotated rt T count syclQueue usmKind = Inl (Terminate ''Memory allocation returns null'') \<and>
      aligned_alloc_annotated rt (remove_align_from rt T) (GetAlignFromPropList rt T)
        count syclQueue usmKind = nullptr)"
  by (simp add: alloc_annotated_def split_annotated_def Let_def)

theorem alloc_annotated_never_null_witness:
  "alloc_annotated demo_runtime [3, 0, 5] 16 () host = Inr (Annotated 4096) \<and>
   alloc_annotated demo_runtime [3, 0, 5] 2000 () host = Inl (Terminate ''Memory allocation returns null'')"
  using alloc_annotated_never_null [of demo_runtime "[3, 0, 5]" 16 "()" host]
        alloc_annotated_never_null [of demo_runtime "[3, 0, 5]" 2000 "()" host]
  by (simp add: demo_runtime_def nullptr_def)

end
